theory Spec2Isabelle
  imports Complex_Main
begin

section \<open>Castle Defense: a shallow embedding of the simulation core\<close>

text \<open>
  The Python sources are translated function by function. Python objects that are shared
  and mutated (monsters) live in an explicit store indexed by references; every other
  object is a record that the operations take and return. Python \<open>int\<close> is \<open>int\<close>.
  Python \<open>float\<close> is modelled by \<open>real\<close>, so the arithmetic of the model is exact where
  the interpreter rounds to binary64. Rendering, animation and input decoding are left out.
\<close>

subsection \<open>Python numbers\<close>

text \<open>\<open>int(x)\<close> on a float truncates toward zero.\<close>

definition py_int :: "real \<Rightarrow> int" where
  "py_int x = (if 0 \<le> x then \<lfloor>x\<rfloor> else \<lceil>x\<rceil>)"

subsection \<open>config.py\<close>

definition WAVE_MONSTER_COUNT_BASE :: real where
  "WAVE_MONSTER_COUNT_BASE = 5"

definition WAVE_MONSTER_COUNT_MULTIPLIER :: real where
  "WAVE_MONSTER_COUNT_MULTIPLIER = 15 / 10"

definition MONSTER_SPAWN_INTERVAL :: real where
  "MONSTER_SPAWN_INTERVAL = 15 / 10"

subsection \<open>The resource ledger\<close>

text \<open>
  Modelled from the spec: the class \<open>ResourceManager\<close> (features/resources) is not among the
  sources. The spec gives its interface: \<open>getAmount(kind)\<close>, \<open>hasAll(costMap)\<close>,
  \<open>spendAll(costMap)\<close> (atomic: all-or-nothing) and \<open>add(kind, amount)\<close>. The ledger is a
  mapping from resource kind to quantity; a kind that was never credited has quantity 0.
  A cost map is the association list of a Python dict.
\<close>

type_synonym ledger = "string \<Rightarrow> int"

type_synonym cost_map = "(string \<times> int) list"

definition get_resource :: "ledger \<Rightarrow> string \<Rightarrow> int" where
  "get_resource rm kind = rm kind"

definition add_resource :: "ledger \<Rightarrow> string \<Rightarrow> int \<Rightarrow> ledger" where
  "add_resource rm kind amount = rm(kind := rm kind + amount)"

definition has_resources :: "ledger \<Rightarrow> cost_map \<Rightarrow> bool" where
  "has_resources rm cost = list_all (\<lambda>(kind, amount). amount \<le> get_resource rm kind) cost"

definition deduct :: "string \<times> int \<Rightarrow> ledger \<Rightarrow> ledger" where
  "deduct ka rm = rm(fst ka := rm (fst ka) - snd ka)"

definition spend_resources :: "ledger \<Rightarrow> cost_map \<Rightarrow> bool \<times> ledger" where
  "spend_resources rm cost =
     (if has_resources rm cost then (True, fold deduct cost rm) else (False, rm))"

definition spend_resource :: "ledger \<Rightarrow> string \<Rightarrow> int \<Rightarrow> bool \<times> ledger" where
  "spend_resource rm kind amount =
     (if amount \<le> get_resource rm kind then (True, deduct (kind, amount) rm) else (False, rm))"

text \<open>
  Modelled from the spec: \<open>has_resources_for_tower\<close> and \<open>spend_resources_for_tower\<close> take the
  in-kind cost map and the Monster Coin cost of a tower variant; the spec has the placement
  cost checked as a whole and spent atomically on confirmation.
\<close>

definition has_resources_for_tower :: "ledger \<Rightarrow> cost_map \<Rightarrow> int \<Rightarrow> bool" where
  "has_resources_for_tower rm cost monster_coin_cost =
     (has_resources rm cost \<and> monster_coin_cost \<le> get_resource rm ''Monster Coins'')"

definition spend_resources_for_tower :: "ledger \<Rightarrow> cost_map \<Rightarrow> int \<Rightarrow> bool \<times> ledger" where
  "spend_resources_for_tower rm cost monster_coin_cost =
     (if has_resources_for_tower rm cost monster_coin_cost
      then (True, deduct (''Monster Coins'', monster_coin_cost) (fold deduct cost rm))
      else (False, rm))"

subsection \<open>Monsters\<close>

text \<open>
  The classes \<open>Monster\<close> and \<open>BossMonster\<close> are not among the sources; the record holds the
  attributes that the wave manager and the towers read and write. \<open>is_boss\<close> stands for
  \<open>isinstance(monster, BossMonster)\<close>. Monsters are shared between the wave manager's
  \<open>active_monsters\<close> and the towers' \<open>targets\<close>, so they live in a store and both lists
  hold references; two references are the same monster iff they are equal (Python's
  default \<open>==\<close> on objects is identity).
\<close>

record monster =
  position :: "real \<times> real"
  health :: real
  is_dead :: bool
  flying :: bool
  reached_castle :: bool
  is_boss :: bool

type_synonym mref = nat

type_synonym monster_store = "mref \<Rightarrow> monster"

text \<open>
  Modelled from the spec: \<open>takeDamage(amount, source)\<close> subtracts the amount from health,
  clamped at 0, and returns whether health remains above 0.
\<close>

definition take_damage :: "monster \<Rightarrow> real \<Rightarrow> bool \<times> monster" where
  "take_damage m amount =
     (let h = max 0 (monster.health m - amount) in (0 < h, m\<lparr>monster.health := h\<rparr>))"

subsection \<open>The castle\<close>

text \<open>The class \<open>Castle\<close> is not among the sources; the record holds the saved attributes.\<close>

record castle =
  health :: real
  max_health :: real
  damage_reduction :: real
  health_regen :: real

subsection \<open>External helpers\<close>

text \<open>
  The module \<open>utils\<close> and the class \<open>Castle\<close> are not among the sources. Their functions
  that the modelled code calls are parameters, collected in one record: \<open>scale_value\<close>,
  \<open>scale_size\<close> and \<open>distance\<close> of \<open>utils\<close>, and \<open>Castle.is_position_within_castle\<close>.
\<close>

record ext =
  scale_value :: "real \<Rightarrow> real"
  scale_size :: "int \<times> int \<Rightarrow> int \<times> int"
  distance :: "real \<times> real \<Rightarrow> real \<times> real \<Rightarrow> real"
  is_position_within_castle :: "castle \<Rightarrow> int \<times> int \<Rightarrow> bool"

subsection \<open>Tower tables of config.py\<close>

text \<open>
  An entry of \<open>TOWER_TYPES\<close> is a dict of numeric stats together with its \<open>cost\<close> dict;
  \<open>TOWER_TYPES.get(tower_type, {})\<close> is the empty dict for an unknown type.
\<close>

type_synonym tower_config = "(string \<times> real) list \<times> cost_map option"

definition TOWER_TYPES :: "(string \<times> tower_config) list" where
  "TOWER_TYPES =
     [(''Archer'', ([(''damage'', 10), (''attack_speed'', 15 / 10), (''range'', 150)],
                   Some [(''Stone'', 20)])),
      (''Sniper'', ([(''damage'', 50), (''attack_speed'', 5 / 10), (''range'', 300)],
                   Some [(''Stone'', 40), (''Iron'', 10)])),
      (''Splash'', ([(''damage'', 20), (''attack_speed'', 8 / 10), (''range'', 200),
                    (''aoe_radius'', 50)],
                   Some [(''Stone'', 30), (''Iron'', 5), (''Copper'', 2)])),
      (''Frozen'', ([(''damage'', 5), (''attack_speed'', 1), (''range'', 180),
                    (''slow_effect'', 5 / 10), (''slow_duration'', 3)],
                   Some [(''Stone'', 25), (''Iron'', 5), (''Copper'', 3)]))]"

definition tower_config_of :: "string \<Rightarrow> tower_config" where
  "tower_config_of tower_type =
     (case map_of TOWER_TYPES tower_type of None \<Rightarrow> ([], None) | Some c \<Rightarrow> c)"

definition config_get :: "tower_config \<Rightarrow> string \<Rightarrow> real \<Rightarrow> real" where
  "config_get c key dflt = (case map_of (fst c) key of None \<Rightarrow> dflt | Some v \<Rightarrow> v)"

definition config_cost :: "tower_config \<Rightarrow> cost_map \<Rightarrow> cost_map" where
  "config_cost c dflt = (case snd c of None \<Rightarrow> dflt | Some v \<Rightarrow> v)"

definition TOWER_MONSTER_COIN_COSTS :: "(string \<times> int) list" where
  "TOWER_MONSTER_COIN_COSTS = [(''Archer'', 15), (''Sniper'', 50), (''Splash'', 65), (''Frozen'', 65)]"

definition monster_coin_cost_of :: "string \<Rightarrow> int \<Rightarrow> int" where
  "monster_coin_cost_of tower_type dflt =
     (case map_of TOWER_MONSTER_COIN_COSTS tower_type of None \<Rightarrow> dflt | Some v \<Rightarrow> v)"

definition TOWER_UPGRADE_COST_MULTIPLIER :: real where
  "TOWER_UPGRADE_COST_MULTIPLIER = 15 / 10"

definition TOWER_MONSTER_COIN_UPGRADE_MULTIPLIER :: real where
  "TOWER_MONSTER_COIN_UPGRADE_MULTIPLIER = 13 / 10"

definition TOWER_DAMAGE_UPGRADE_MULTIPLIER :: real where
  "TOWER_DAMAGE_UPGRADE_MULTIPLIER = 13 / 10"

definition TOWER_ATTACK_SPEED_UPGRADE_MULTIPLIER :: real where
  "TOWER_ATTACK_SPEED_UPGRADE_MULTIPLIER = 12 / 10"

definition TOWER_RANGE_UPGRADE_MULTIPLIER :: real where
  "TOWER_RANGE_UPGRADE_MULTIPLIER = 12 / 10"

text \<open>\<open>ITEM_EFFECTS\<close>: the numeric entries of each item's dict.\<close>

definition ITEM_EFFECTS :: "(string \<times> (string \<times> real) list) list" where
  "ITEM_EFFECTS =
     [(''Unstoppable Force'', [(''aoe_radius_multiplier'', 13 / 10), (''splash_damage_radius'', 30)]),
      (''Serene Spirit'', [(''healing_percentage'', 5 / 100)])]"

definition item_effect_get :: "string \<Rightarrow> string \<Rightarrow> real \<Rightarrow> real" where
  "item_effect_get item key dflt =
     (case map_of ITEM_EFFECTS item of
        None \<Rightarrow> dflt
      | Some d \<Rightarrow> (case map_of d key of None \<Rightarrow> dflt | Some v \<Rightarrow> v))"

subsection \<open>features/towers/base\_tower.py\<close>

text \<open>\<open>pygame.Rect\<close>: left, top, width, height.\<close>

record rect =
  left :: int
  top :: int
  width :: int
  height :: int

text \<open>
  The attributes of a tower, without those that only drive drawing and animation.
  \<open>class_name\<close> is \<open>tower.__class__.__name__\<close>. The attributes that only a Splash or a
  Frozen tower has are fields of every record; they are 0 for the other variants and are
  read and written only under the tests on \<open>tower_type\<close> that the source makes.
  A slot holds \<open>None\<close> or an item name.
\<close>

record tower =
  class_name :: string
  position :: "int \<times> int"
  tower_type :: string
  level :: int
  damage_level :: int
  attack_speed_level :: int
  range_level :: int
  damage :: real
  attack_speed :: real
  ref_range :: real
  range' :: real
  base_damage :: real
  base_attack_speed :: real
  base_range :: real
  base_ref_range :: real
  attack_timer :: real
  targets :: "mref list"
  current_target :: "mref option"
  item_slots :: "string option list"
  has_item_effects :: bool
  splash_damage_enabled :: bool
  splash_damage_radius :: real
  rect :: rect
  ref_aoe_radius :: real
  aoe_radius :: real
  base_ref_aoe_radius :: real
  base_aoe_radius :: real
  aoe_radius_level :: int
  slow_effect :: real
  slow_duration :: real
  base_slow_effect :: real
  base_slow_duration :: real
  slow_effect_level :: int
  slow_duration_level :: int

text \<open>The truth value of a slot or item argument: \<open>None\<close> and the empty string are false.\<close>

definition truthy :: "string option \<Rightarrow> bool" where
  "truthy item = (case item of None \<Rightarrow> False | Some i \<Rightarrow> i \<noteq> [])"

text \<open>\<open>Tower.__init__\<close> with \<open>initialize_specific_properties\<close>.\<close>

definition Tower_init :: "ext \<Rightarrow> int \<times> int \<Rightarrow> string \<Rightarrow> tower" where
  "Tower_init u pos ttype =
     (let tower_config = tower_config_of ttype;
          dmg = config_get tower_config ''damage'' 10;
          aspeed = config_get tower_config ''attack_speed'' 1;
          rrange = config_get tower_config ''range'' 150;
          rng = scale_value u rrange;
          sz = scale_size u (40, 40);
          raoe = (if ttype = ''Splash'' then config_get tower_config ''aoe_radius'' 50 else 0);
          aoe = (if ttype = ''Splash'' then scale_value u raoe else 0);
          slow = (if ttype = ''Frozen''
                  then config_get tower_config ''slow_effect'' (5 / 10) else 0);
          dur = (if ttype = ''Frozen''
                 then config_get tower_config ''slow_duration'' 3 else 0)
      in \<lparr>class_name = ''Tower'', tower.position = pos, tower_type = ttype, level = 1,
          damage_level = 1, attack_speed_level = 1, range_level = 1,
          damage = dmg, attack_speed = aspeed, ref_range = rrange, range' = rng,
          base_damage = dmg, base_attack_speed = aspeed, base_range = rng,
          base_ref_range = rrange, attack_timer = 0, targets = [], current_target = None,
          item_slots = [None, None], has_item_effects = False,
          splash_damage_enabled = False, splash_damage_radius = 0,
          rect = \<lparr>left = fst pos - fst sz div 2, top = snd pos - snd sz div 2,
                   width = fst sz, height = snd sz\<rparr>,
          ref_aoe_radius = raoe, aoe_radius = aoe, base_ref_aoe_radius = raoe,
          base_aoe_radius = aoe,
          aoe_radius_level = (if ttype = ''Splash'' then 1 else 0),
          slow_effect = slow, slow_duration = dur, base_slow_effect = slow,
          base_slow_duration = dur,
          slow_effect_level = (if ttype = ''Frozen'' then 1 else 0),
          slow_duration_level = (if ttype = ''Frozen'' then 1 else 0)\<rparr>)"

text \<open>
  The upgrade costs. \<open>scaled_cost\<close> is the dict comprehension shared by the three
  \<open>calculate_*_upgrade_cost\<close> methods, and \<open>scaled_coin_cost\<close> the expression shared by the three
  \<open>calculate_*_upgrade_monster_coin_cost\<close> methods; each method passes its own level.
\<close>

definition scaled_cost :: "tower \<Rightarrow> int \<Rightarrow> cost_map" where
  "scaled_cost t lvl =
     (let base_cost = config_cost (tower_config_of (tower_type t)) [(''Stone'', 20)]
      in map (\<lambda>(resource_type, amount).
                (resource_type,
                 py_int (of_int amount * (TOWER_UPGRADE_COST_MULTIPLIER powi (lvl - 1)))))
           base_cost)"

definition scaled_coin_cost :: "tower \<Rightarrow> int \<Rightarrow> int" where
  "scaled_coin_cost t lvl =
     (let base_cost = monster_coin_cost_of (tower_type t) 5
      in py_int (of_int base_cost * (TOWER_MONSTER_COIN_UPGRADE_MULTIPLIER powi (lvl - 1))))"

definition calculate_damage_upgrade_cost :: "tower \<Rightarrow> cost_map" where
  "calculate_damage_upgrade_cost t = scaled_cost t (damage_level t)"

definition calculate_damage_upgrade_monster_coin_cost :: "tower \<Rightarrow> int" where
  "calculate_damage_upgrade_monster_coin_cost t = scaled_coin_cost t (damage_level t)"

definition calculate_attack_speed_upgrade_cost :: "tower \<Rightarrow> cost_map" where
  "calculate_attack_speed_upgrade_cost t = scaled_cost t (attack_speed_level t)"

definition calculate_attack_speed_upgrade_monster_coin_cost :: "tower \<Rightarrow> int" where
  "calculate_attack_speed_upgrade_monster_coin_cost t = scaled_coin_cost t (attack_speed_level t)"

definition calculate_range_upgrade_cost :: "tower \<Rightarrow> cost_map" where
  "calculate_range_upgrade_cost t = scaled_cost t (range_level t)"

definition calculate_range_upgrade_monster_coin_cost :: "tower \<Rightarrow> int" where
  "calculate_range_upgrade_monster_coin_cost t = scaled_coin_cost t (range_level t)"

text \<open>\<open>apply_item_effects\<close>: \<open>apply_item\<close> is the body of its loop over the slots.\<close>

definition apply_item :: "ext \<Rightarrow> string option \<Rightarrow> tower \<Rightarrow> tower" where
  "apply_item u item t =
     (if \<not> truthy item then t
      else if item = Some ''Unstoppable Force'' then
        if tower_type t = ''Splash'' \<or> tower_type t = ''Frozen'' then
          let aoe_multiplier =
                item_effect_get ''Unstoppable Force'' ''aoe_radius_multiplier'' (13 / 10)
          in if tower_type t = ''Splash'' then
               t\<lparr>ref_aoe_radius := ref_aoe_radius t * aoe_multiplier,
                 aoe_radius := scale_value u (ref_aoe_radius t * aoe_multiplier)\<rparr>
             else if tower_type t = ''Frozen'' then
               t\<lparr>ref_range := ref_range t * aoe_multiplier,
                 range' := scale_value u (ref_range t * aoe_multiplier)\<rparr>
             else t
        else if tower_type t = ''Archer'' \<or> tower_type t = ''Sniper'' then
          let base_splash = item_effect_get ''Unstoppable Force'' ''splash_damage_radius'' 30
          in t\<lparr>splash_damage_enabled := True, splash_damage_radius := scale_value u base_splash\<rparr>
        else t
      else t)"

definition apply_item_effects :: "ext \<Rightarrow> tower \<Rightarrow> tower" where
  "apply_item_effects u t =
     (let t1 = t\<lparr>damage := base_damage t, attack_speed := base_attack_speed t,
                 ref_range := base_ref_range t, range' := base_range t\<rparr>;
          t2 = (if tower_type t1 = ''Splash'' then
                  t1\<lparr>ref_aoe_radius := base_ref_aoe_radius t1, aoe_radius := base_aoe_radius t1\<rparr>
                else if tower_type t1 = ''Frozen'' then
                  t1\<lparr>slow_effect := base_slow_effect t1, slow_duration := base_slow_duration t1\<rparr>
                else t1);
          t3 = t2\<lparr>splash_damage_enabled := False, splash_damage_radius := 0\<rparr>
      in if \<not> list_ex truthy (item_slots t3) then t3\<lparr>has_item_effects := False\<rparr>
         else fold (apply_item u) (item_slots t3) (t3\<lparr>has_item_effects := True\<rparr>))"

text \<open>
  The three upgrade methods. Each returns its result, the tower and the ledger. The result
  of \<open>spend_resource\<close> for the Monster Coins is dropped, as in the source.
\<close>

definition upgrade_damage :: "ext \<Rightarrow> tower \<Rightarrow> ledger \<Rightarrow> bool \<times> tower \<times> ledger" where
  "upgrade_damage u t rm =
     (let cost = calculate_damage_upgrade_cost t;
          monster_coin_cost = calculate_damage_upgrade_monster_coin_cost t
      in if \<not> has_resources rm cost \<or> get_resource rm ''Monster Coins'' < monster_coin_cost
         then (False, t, rm)
         else if fst (spend_resources rm cost) then
           let rm1 = snd (spend_resources rm cost);
               rm2 = snd (spend_resource rm1 ''Monster Coins'' monster_coin_cost);
               t1 = t\<lparr>base_damage := base_damage t * TOWER_DAMAGE_UPGRADE_MULTIPLIER,
                       damage_level := damage_level t + 1, level := level t + 1\<rparr>
           in (True, apply_item_effects u t1, rm2)
         else (False, t, snd (spend_resources rm cost)))"

definition upgrade_attack_speed :: "ext \<Rightarrow> tower \<Rightarrow> ledger \<Rightarrow> bool \<times> tower \<times> ledger" where
  "upgrade_attack_speed u t rm =
     (let cost = calculate_attack_speed_upgrade_cost t;
          monster_coin_cost = calculate_attack_speed_upgrade_monster_coin_cost t
      in if \<not> has_resources rm cost \<or> get_resource rm ''Monster Coins'' < monster_coin_cost
         then (False, t, rm)
         else if fst (spend_resources rm cost) then
           let rm1 = snd (spend_resources rm cost);
               rm2 = snd (spend_resource rm1 ''Monster Coins'' monster_coin_cost);
               t1 = t\<lparr>base_attack_speed :=
                         base_attack_speed t * TOWER_ATTACK_SPEED_UPGRADE_MULTIPLIER,
                       attack_speed_level := attack_speed_level t + 1, level := level t + 1\<rparr>
           in (True, apply_item_effects u t1, rm2)
         else (False, t, snd (spend_resources rm cost)))"

definition upgrade_range :: "ext \<Rightarrow> tower \<Rightarrow> ledger \<Rightarrow> bool \<times> tower \<times> ledger" where
  "upgrade_range u t rm =
     (let cost = calculate_range_upgrade_cost t;
          monster_coin_cost = calculate_range_upgrade_monster_coin_cost t
      in if \<not> has_resources rm cost \<or> get_resource rm ''Monster Coins'' < monster_coin_cost
         then (False, t, rm)
         else if fst (spend_resources rm cost) then
           let rm1 = snd (spend_resources rm cost);
               rm2 = snd (spend_resource rm1 ''Monster Coins'' monster_coin_cost);
               t1 = t\<lparr>base_ref_range := base_ref_range t * TOWER_RANGE_UPGRADE_MULTIPLIER\<rparr>;
               t2 = t1\<lparr>base_range := scale_value u (base_ref_range t1),
                        range_level := range_level t1 + 1, level := level t1 + 1\<rparr>
           in (True, apply_item_effects u t2, rm2)
         else (False, t, snd (spend_resources rm cost)))"

text \<open>
  \<open>add_item\<close> and \<open>remove_item\<close>. The ledger argument is optional (\<open>resource_manager=None\<close>).
  \<open>add_item\<close> drops the result of \<open>spend_resource\<close>, as the source does.
\<close>

definition add_item ::
  "ext \<Rightarrow> string option \<Rightarrow> int \<Rightarrow> ledger option \<Rightarrow> tower \<Rightarrow> bool \<times> tower \<times> ledger option" where
  "add_item u item slot_index rm t =
     (if 0 \<le> slot_index \<and> slot_index < int (length (item_slots t)) then
        let current_item = item_slots t ! nat slot_index;
            rm1 = (if truthy current_item
                   then map_option (\<lambda>r. add_resource r (the current_item) 1) rm else rm);
            t1 = t\<lparr>item_slots := (item_slots t)[nat slot_index := item]\<rparr>;
            rm2 = (if truthy item
                   then map_option (\<lambda>r. snd (spend_resource r (the item) 1)) rm1 else rm1)
        in (True, apply_item_effects u t1, rm2)
      else (False, t, rm))"

definition remove_item ::
  "ext \<Rightarrow> int \<Rightarrow> ledger option \<Rightarrow> tower \<Rightarrow> string option \<times> tower \<times> ledger option" where
  "remove_item u slot_index rm t =
     (if 0 \<le> slot_index \<and> slot_index < int (length (item_slots t))
         \<and> truthy (item_slots t ! nat slot_index) then
        let removed_item = item_slots t ! nat slot_index;
            t1 = t\<lparr>item_slots := (item_slots t)[nat slot_index := None]\<rparr>;
            t2 = apply_item_effects u t1;
            rm1 = map_option (\<lambda>r. add_resource r (the removed_item) 1) rm
        in (removed_item, t2, rm1)
      else (None, t, rm))"

text \<open>
  \<open>find_targets\<close>: the monsters in range, closest first. \<open>list.sort\<close> is stable, as
  \<open>sort_key\<close> is.
\<close>

definition find_targets :: "ext \<Rightarrow> monster_store \<Rightarrow> mref list \<Rightarrow> tower \<Rightarrow> tower" where
  "find_targets u ms monster_list t =
     (let of_pos = (\<lambda>p. (real_of_int (fst p), real_of_int (snd p)));
          in_range =
            filter (\<lambda>r. \<not> is_dead (ms r)
                        \<and> \<not> (flying (ms r) \<and> tower_type t \<noteq> ''Archer'' \<and> tower_type t \<noteq> ''Sniper'')
                        \<and> distance u (of_pos (tower.position t)) (monster.position (ms r)) \<le> range' t)
              monster_list
      in t\<lparr>targets :=
            sort_key (\<lambda>r. distance u (of_pos (tower.position t)) (monster.position (ms r)))
              in_range\<rparr>)"

subsection \<open>features/towers/factory.py\<close>

datatype error = ValueError | KeyError

text \<open>
  The constructors of the four subclasses call \<open>Tower.__init__\<close> with their type. The sources
  of \<open>SplashTower\<close> and \<open>FrozenTower\<close> are not among the files; their constructors are taken
  to do the same, \<open>initialize_specific_properties\<close> of the base class setting their
  attributes.
\<close>

definition ArcherTower :: "ext \<Rightarrow> int \<times> int \<Rightarrow> tower" where
  "ArcherTower u pos = (Tower_init u pos ''Archer'')\<lparr>class_name := ''ArcherTower''\<rparr>"

definition SniperTower :: "ext \<Rightarrow> int \<times> int \<Rightarrow> tower" where
  "SniperTower u pos = (Tower_init u pos ''Sniper'')\<lparr>class_name := ''SniperTower''\<rparr>"

definition SplashTower :: "ext \<Rightarrow> int \<times> int \<Rightarrow> tower" where
  "SplashTower u pos = (Tower_init u pos ''Splash'')\<lparr>class_name := ''SplashTower''\<rparr>"

definition FrozenTower :: "ext \<Rightarrow> int \<times> int \<Rightarrow> tower" where
  "FrozenTower u pos = (Tower_init u pos ''Frozen'')\<lparr>class_name := ''FrozenTower''\<rparr>"

definition create_tower :: "ext \<Rightarrow> string \<Rightarrow> int \<times> int \<Rightarrow> error + tower" where
  "create_tower u ttype pos =
     (if ttype = ''Archer'' then Inr (ArcherTower u pos)
      else if ttype = ''Sniper'' then Inr (SniperTower u pos)
      else if ttype = ''Splash'' then Inr (SplashTower u pos)
      else if ttype = ''Frozen'' then Inr (FrozenTower u pos)
      else Inl ValueError)"

subsection \<open>features/monsters/wave\_manager.py\<close>

record wave_manager =
  current_wave :: int
  active_monsters :: "mref list"
  spawn_timer :: real
  monsters_to_spawn :: int
  wave_active :: bool
  wave_completed :: bool
  wave_start_animation_timer :: real
  wave_complete_animation_timer :: real
  continuous_wave :: bool

definition WaveManager_init :: wave_manager where
  "WaveManager_init =
     \<lparr>current_wave = 0, active_monsters = [], spawn_timer = 0, monsters_to_spawn = 0,
      wave_active = False, wave_completed = True, wave_start_animation_timer = 0,
      wave_complete_animation_timer = 0, continuous_wave = True\<rparr>"

definition start_next_wave :: "wave_manager \<Rightarrow> bool \<times> wave_manager" where
  "start_next_wave wm =
     (if \<not> wave_active wm then
        let wm1 = wm\<lparr>current_wave := current_wave wm + 1, wave_active := True,
                     wave_completed := False, spawn_timer := 0,
                     wave_start_animation_timer := 1\<rparr>
        in if current_wave wm1 mod 10 = 0 then (True, wm1\<lparr>monsters_to_spawn := 1\<rparr>)
           else
             let base_count = WAVE_MONSTER_COUNT_BASE;
                 multiplier = WAVE_MONSTER_COUNT_MULTIPLIER powi (current_wave wm1 div 10)
             in (True, wm1\<lparr>monsters_to_spawn :=
                   py_int (base_count + of_int (current_wave wm1) * (5 / 10) * multiplier)\<rparr>)
      else (False, wm))"

text \<open>
  The objects of the states that carry data: \<open>GameOverState\<close> and \<open>TowerPlacementState\<close>.
  \<open>state_name\<close> names the classes of the five states.
\<close>

record game_over_state =
  time_in_state :: real
  auto_continue_time :: real
  setback_wave :: int
  current_wave :: int

record tower_placement_state =
  tower_type :: "string option"
  tower_preview :: "tower option"

datatype state_name =
  MainMenuState | PlayingState | PausedState | TowerPlacementState | GameOverState

text \<open>
  \<open>Game\<close>: the fields that the modelled operations reach, with the store of monster
  objects and the next unused reference. Of a building only its \<open>rect\<close> is kept.
  \<open>current_state\<close> is \<open>state_manager.current_state\<close>; \<open>game_over\<close> and \<open>tower_placement\<close>
  are the entries of \<open>states\<close> under these names.
\<close>

record game =
  wave_manager :: wave_manager
  monsters :: monster_store
  next_ref :: mref
  resource_manager :: ledger
  castle :: castle
  towers :: "tower list"
  buildings :: "rect list"
  running :: bool
  current_state :: state_name
  game_over :: game_over_state
  tower_placement :: tower_placement_state

text \<open>
  \<open>handle_monster_death(monster, resource_manager)\<close>. The argument is \<open>None\<close> or a reference.
  \<open>drop_loot\<close> is \<open>BossMonster.drop_loot\<close>, which is not among the sources: a parameter that
  gives the loot dict of a boss.
\<close>

definition handle_monster_death ::
  "(monster \<Rightarrow> cost_map) \<Rightarrow> mref option \<Rightarrow> game \<Rightarrow> game" where
  "handle_monster_death drop_loot monster w =
     (case monster of
        None \<Rightarrow> w
      | Some r \<Rightarrow>
          if r \<notin> set (active_monsters (wave_manager w)) then w
          else
            let w1 = w\<lparr>monsters := (monsters w)(r := (monsters w r)\<lparr>is_dead := True\<rparr>)\<rparr>;
                w2 = w1\<lparr>resource_manager := add_resource (resource_manager w1) ''Monster Coins'' 1\<rparr>
            in if is_boss (monsters w2 r)
               then w2\<lparr>resource_manager :=
                      fold (\<lambda>(resource_type, amount) rm. add_resource rm resource_type amount)
                        (drop_loot (monsters w2 r)) (resource_manager w2)\<rparr>
               else w2)"

text \<open>
  \<open>spawn_monster\<close> draws a random spawn point and asks \<open>MonsterFactory\<close> (not among the
  sources) for a boss or a regular monster; \<open>new_monster\<close> is the monster created. The new
  object gets a fresh reference.
\<close>

definition spawn_monster :: "monster \<Rightarrow> game \<Rightarrow> game" where
  "spawn_monster new_monster w =
     (let r = next_ref w
      in w\<lparr>monsters := (monsters w)(r := new_monster), next_ref := Suc r,
            wave_manager := (wave_manager w)\<lparr>active_monsters := active_monsters (wave_manager w) @ [r]\<rparr>\<rparr>)"

text \<open>
  The first loop of \<open>update\<close>. \<open>monster_update\<close> is \<open>Monster.update(dt, castle)\<close>, which is not
  among the sources: a parameter that gives the moved monster, the castle after the
  monster's attack and whether the monster is still active.
\<close>

type_synonym monster_update = "real \<Rightarrow> castle \<Rightarrow> monster \<Rightarrow> monster \<times> castle \<times> bool"

fun update_monsters ::
  "monster_update \<Rightarrow> real \<Rightarrow> mref list \<Rightarrow> monster_store \<times> castle \<times> mref list
     \<Rightarrow> monster_store \<times> castle \<times> mref list" where
  "update_monsters mu dt [] acc = acc"
| "update_monsters mu dt (r # rs) (ms, c, monsters_to_remove) =
     (case mu dt c (ms r) of
        (m', c', monster_still_active) \<Rightarrow>
          update_monsters mu dt rs
            (ms(r := m'), c',
             if \<not> monster_still_active then monsters_to_remove @ [r] else monsters_to_remove))"

text \<open>The second loop of \<open>update\<close>: the fallback death handling and the removal.\<close>

fun remove_monsters :: "(monster \<Rightarrow> cost_map) \<Rightarrow> mref list \<Rightarrow> game \<Rightarrow> game" where
  "remove_monsters drop_loot [] w = w"
| "remove_monsters drop_loot (r # rs) w =
     remove_monsters drop_loot rs
       (if r \<in> set (active_monsters (wave_manager w)) then
          let w1 = (if is_dead (monsters w r) \<and> \<not> reached_castle (monsters w r)
                    then handle_monster_death drop_loot (Some r) w else w)
          in w1\<lparr>wave_manager := (wave_manager w1)\<lparr>active_monsters :=
                   remove1 r (active_monsters (wave_manager w1))\<rparr>\<rparr>
        else w)"

text \<open>
  \<open>update\<close>, block by block: the animation timers, the spawning, the two loops over the
  monsters, and the test for the end of the wave. The fallback death handling reaches the
  ledger through the global \<open>game_instance\<close>, which is the game itself.
\<close>

definition update_timers :: "real \<Rightarrow> wave_manager \<Rightarrow> wave_manager" where
  "update_timers dt wm =
     (let wm1 = (if wave_start_animation_timer wm > 0
                 then wm\<lparr>wave_start_animation_timer := wave_start_animation_timer wm - dt\<rparr>
                 else wm)
      in if wave_complete_animation_timer wm1 > 0
         then wm1\<lparr>wave_complete_animation_timer := wave_complete_animation_timer wm1 - dt\<rparr>
         else wm1)"

definition spawn_step :: "monster \<Rightarrow> real \<Rightarrow> game \<Rightarrow> game" where
  "spawn_step new_monster dt w =
     (let w2 = w\<lparr>wave_manager := (wave_manager w)\<lparr>spawn_timer := spawn_timer (wave_manager w) + dt\<rparr>\<rparr>
      in if spawn_timer (wave_manager w2) \<ge> MONSTER_SPAWN_INTERVAL
            \<and> monsters_to_spawn (wave_manager w2) > 0
         then
           let w' = spawn_monster new_monster w2
           in w'\<lparr>wave_manager := (wave_manager w')\<lparr>
                  monsters_to_spawn := monsters_to_spawn (wave_manager w') - 1,
                  spawn_timer := 0\<rparr>\<rparr>
         else w2)"

definition move_and_remove :: "monster_update \<Rightarrow> (monster \<Rightarrow> cost_map) \<Rightarrow> real \<Rightarrow> game \<Rightarrow> game" where
  "move_and_remove mu drop_loot dt w =
     (let res = update_monsters mu dt (active_monsters (wave_manager w))
                  (monsters w, castle w, []);
          w4 = w\<lparr>monsters := fst res, castle := fst (snd res)\<rparr>
      in remove_monsters drop_loot (snd (snd res)) w4)"

definition check_wave_complete :: "game \<Rightarrow> game" where
  "check_wave_complete w =
     (if length (active_monsters (wave_manager w)) = 0 \<and> monsters_to_spawn (wave_manager w) = 0
      then w\<lparr>wave_manager := (wave_manager w)\<lparr>wave_active := False, wave_completed := True,
                wave_complete_animation_timer := 2\<rparr>\<rparr>
      else w)"

definition update ::
  "monster_update \<Rightarrow> (monster \<Rightarrow> cost_map) \<Rightarrow> monster \<Rightarrow> real \<Rightarrow> game \<Rightarrow> game" where
  "update mu drop_loot new_monster dt w =
     (let w1 = w\<lparr>wave_manager := update_timers dt (wave_manager w)\<rparr>
      in if wave_active (wave_manager w1)
         then check_wave_complete
                (move_and_remove mu drop_loot dt (spawn_step new_monster dt w1))
         else w1)"

subsection \<open>features/towers/archer\_tower.py and sniper\_tower.py\<close>

text \<open>\<open>Tower.attack\<close>, which both subclasses call first: it records the current target.\<close>

definition Tower_attack :: "tower \<Rightarrow> tower" where
  "Tower_attack t = (if targets t \<noteq> [] then t\<lparr>current_target := Some (hd (targets t))\<rparr> else t)"

text \<open>The loop over \<open>self.targets\<close> that applies the splash damage around the primary target.\<close>

fun splash_loop ::
  "ext \<Rightarrow> tower \<Rightarrow> mref \<Rightarrow> mref list \<Rightarrow> monster_store \<times> mref list
     \<Rightarrow> monster_store \<times> mref list" where
  "splash_loop u t target [] acc = acc"
| "splash_loop u t target (r # rs) (ms, splash_targets) =
     splash_loop u t target rs
       (if r \<noteq> target \<and> \<not> is_dead (ms r) then
          if distance u (monster.position (ms r)) (monster.position (ms target))
               \<le> splash_damage_radius t
          then
            let splash_damage = damage t * (5 / 10);
                res = take_damage (ms r) splash_damage
            in (ms(r := snd res), if \<not> fst res then splash_targets @ [r] else splash_targets)
          else (ms, splash_targets)
        else (ms, splash_targets))"

text \<open>
  The part that the two \<open>attack\<close> methods share word for word, from the test of
  \<open>target.is_dead\<close> on. The kills are handed to \<open>handle_monster_death\<close> of every \<open>Game\<close> object
  found among the values of the tower module's \<open>globals()\<close>; \<open>game_in_globals\<close> says whether
  the running game is among them.
\<close>

definition resolve_attack ::
  "ext \<Rightarrow> (monster \<Rightarrow> cost_map) \<Rightarrow> bool \<Rightarrow> tower \<Rightarrow> mref \<Rightarrow> game \<Rightarrow> game" where
  "resolve_attack u drop_loot game_in_globals t target g =
     (if is_dead (monsters g target) then g
      else
        let res = take_damage (monsters g target) (damage t);
            primary_target_killed = \<not> fst res;
            ms1 = (monsters g)(target := snd res);
            sp = (if splash_damage_enabled t \<and> splash_damage_radius t > 0
                  then splash_loop u t target (targets t) (ms1, [])
                  else (ms1, []));
            killed_monsters = (if primary_target_killed then [target] else []) @ snd sp;
            g1 = g\<lparr>monsters := fst sp\<rparr>
        in if killed_monsters \<noteq> [] \<and> game_in_globals
           then fold (\<lambda>r. handle_monster_death drop_loot (Some r)) killed_monsters g1
           else g1)"

definition ArcherTower_attack ::
  "ext \<Rightarrow> (monster \<Rightarrow> cost_map) \<Rightarrow> bool \<Rightarrow> tower \<Rightarrow> game \<Rightarrow> tower \<times> game" where
  "ArcherTower_attack u drop_loot game_in_globals t g =
     (let t1 = Tower_attack t
      in if targets t1 = [] then (t1, g)
         else (t1, resolve_attack u drop_loot game_in_globals t1 (hd (targets t1)) g))"

text \<open>\<open>max(self.targets, key=lambda m: m.health)\<close>: the first target of greatest health.\<close>

fun max_health_target :: "monster_store \<Rightarrow> mref \<Rightarrow> mref list \<Rightarrow> mref" where
  "max_health_target ms best [] = best"
| "max_health_target ms best (r # rs) =
     max_health_target ms (if monster.health (ms r) > monster.health (ms best) then r else best) rs"

definition SniperTower_attack ::
  "ext \<Rightarrow> (monster \<Rightarrow> cost_map) \<Rightarrow> bool \<Rightarrow> tower \<Rightarrow> game \<Rightarrow> tower \<times> game" where
  "SniperTower_attack u drop_loot game_in_globals t g =
     (let t1 = Tower_attack t
      in if targets t1 = [] then (t1, g)
         else (t1, resolve_attack u drop_loot game_in_globals t1
                     (max_health_target (monsters g) (hd (targets t1)) (tl (targets t1))) g))"

subsection \<open>game.py\<close>

text \<open>
  \<open>pygame.Rect.colliderect\<close> (pygame is an external library): two rectangles collide when
  they overlap in both directions, edges excluded.
\<close>

definition colliderect :: "rect \<Rightarrow> rect \<Rightarrow> bool" where
  "colliderect a b =
     (left a < left b + width b \<and> left b < left a + width a
      \<and> top a < top b + height b \<and> top b < top a + height a)"

definition is_valid_tower_position :: "ext \<Rightarrow> game \<Rightarrow> int \<times> int \<Rightarrow> bool" where
  "is_valid_tower_position u g pos =
     (let tower_size = scale_size u (40, 40);
          tower_rect = \<lparr>left = fst pos - fst tower_size div 2,
                        top = snd pos - snd tower_size div 2,
                        width = fst tower_size, height = snd tower_size\<rparr>
      in if \<not> is_position_within_castle u (castle g) pos then False
         else if list_ex (\<lambda>building. colliderect tower_rect building) (buildings g) then False
         else if list_ex (\<lambda>tower. colliderect tower_rect (rect tower)) (towers g) then False
         else True)"

definition reset_castle :: "game \<Rightarrow> game" where
  "reset_castle g = g\<lparr>castle := (castle g)\<lparr>castle.health := max_health (castle g)\<rparr>\<rparr>"

definition set_wave :: "int \<Rightarrow> game \<Rightarrow> game" where
  "set_wave wave_number g =
     g\<lparr>wave_manager := (wave_manager g)\<lparr>wave_manager.current_wave := wave_number,
          active_monsters := [], wave_active := False, wave_completed := True,
          monsters_to_spawn := 0\<rparr>\<rparr>"

subsection \<open>The states\<close>

definition GameOverState_init :: game_over_state where
  "GameOverState_init =
     \<lparr>time_in_state = 0, auto_continue_time = 15, setback_wave = 1,
      game_over_state.current_wave = 0\<rparr>"

definition TowerPlacementState_init :: tower_placement_state where
  "TowerPlacementState_init = \<lparr>tower_placement_state.tower_type = None, tower_preview = None\<rparr>"

text \<open>\<open>GameOverState.enter\<close>.\<close>

definition GameOverState_enter :: "game \<Rightarrow> game" where
  "GameOverState_enter g =
     (let s = (game_over g)\<lparr>time_in_state := 0,
                game_over_state.current_wave := wave_manager.current_wave (wave_manager g)\<rparr>;
          s1 = (if game_over_state.current_wave s \<ge> 11
                then s\<lparr>setback_wave := max 1 (game_over_state.current_wave s - 10)\<rparr>
                else s\<lparr>setback_wave := 1\<rparr>)
      in g\<lparr>game_over := s1\<rparr>)"

text \<open>\<open>TowerPlacementState.enter\<close> and \<open>exit\<close>.\<close>

definition TowerPlacementState_enter :: "game \<Rightarrow> game" where
  "TowerPlacementState_enter g =
     g\<lparr>tower_placement := (tower_placement g)\<lparr>tower_placement_state.tower_type := None,
          tower_preview := None\<rparr>\<rparr>"

definition TowerPlacementState_exit :: "game \<Rightarrow> game" where
  "TowerPlacementState_exit g =
     g\<lparr>tower_placement := (tower_placement g)\<lparr>tower_placement_state.tower_type := None,
          tower_preview := None\<rparr>\<rparr>"

text \<open>
  Modelled from the spec: \<open>GameStateManager.change_state\<close> (states/game\_state.py is not among
  the sources) calls \<open>exit()\<close> on the old state, then \<open>enter()\<close> on the new one. The states
  with an \<open>enter\<close> or \<open>exit\<close> that touches the modelled fields are the two above; those of
  \<open>PausedState\<close> set drawing flags only.
\<close>

definition state_exit :: "state_name \<Rightarrow> game \<Rightarrow> game" where
  "state_exit s g = (if s = TowerPlacementState then TowerPlacementState_exit g else g)"

definition state_enter :: "state_name \<Rightarrow> game \<Rightarrow> game" where
  "state_enter s g =
     (if s = GameOverState then GameOverState_enter g
      else if s = TowerPlacementState then TowerPlacementState_enter g
      else g)"

definition change_state :: "state_name \<Rightarrow> game \<Rightarrow> game" where
  "change_state s g = (state_enter s (state_exit (current_state g) g))\<lparr>current_state := s\<rparr>"

text \<open>\<open>GameOverState.continue_game\<close> and \<open>GameOverState.update\<close>.\<close>

definition continue_game :: "game \<Rightarrow> game" where
  "continue_game g =
     (let g1 = g\<lparr>castle := (castle g)\<lparr>castle.health := max_health (castle g)\<rparr>\<rparr>;
          g2 = g1\<lparr>wave_manager := (wave_manager g1)\<lparr>
                  wave_manager.current_wave := setback_wave (game_over g1) - 1\<rparr>\<rparr>;
          g3 = g2\<lparr>wave_manager := (wave_manager g2)\<lparr>active_monsters := [],
                  wave_active := False, wave_completed := True, monsters_to_spawn := 0\<rparr>\<rparr>
      in change_state PlayingState g3)"

definition GameOverState_update :: "real \<Rightarrow> game \<Rightarrow> game" where
  "GameOverState_update dt g =
     (let g1 = g\<lparr>game_over := (game_over g)\<lparr>time_in_state := time_in_state (game_over g) + dt\<rparr>\<rparr>
      in if time_in_state (game_over g1) \<ge> auto_continue_time (game_over g1)
         then continue_game g1 else g1)"

text \<open>
  The decoded input events that the two modelled \<open>handle_events\<close> methods distinguish.
\<close>

datatype event = LeftClick | RightClick | KeyEscape | KeyReturn | KeySpace | OtherEvent

fun GameOverState_handle_events :: "event list \<Rightarrow> game \<Rightarrow> bool \<times> game" where
  "GameOverState_handle_events [] g = (False, g)"
| "GameOverState_handle_events (e # es) g =
     (if e = KeyEscape then (True, g\<lparr>running := False\<rparr>)
      else if e = KeyReturn \<or> e = KeySpace then (True, continue_game g)
      else GameOverState_handle_events es g)"

subsection \<open>states/tower\_placement\_state.py\<close>

definition set_tower_type :: "ext \<Rightarrow> string option \<Rightarrow> game \<Rightarrow> game" where
  "set_tower_type u ttype g =
     (let s = (tower_placement g)\<lparr>tower_placement_state.tower_type := ttype\<rparr>;
          s1 = (if truthy ttype then
                  (case create_tower u (the ttype) (0, 0) of
                     Inr t \<Rightarrow> s\<lparr>tower_preview := Some t\<rparr>
                   | Inl e \<Rightarrow> s\<lparr>tower_preview := None\<rparr>)
                else s)
      in g\<lparr>tower_placement := s1\<rparr>)"

text \<open>\<open>Game.enter_tower_placement_mode\<close>.\<close>

definition enter_tower_placement_mode :: "ext \<Rightarrow> string \<Rightarrow> game \<Rightarrow> game" where
  "enter_tower_placement_mode u ttype g =
     set_tower_type u (Some ttype) (change_state TowerPlacementState g)"

text \<open>
  \<open>place_tower\<close>. The factory raises \<open>ValueError\<close> for an unknown type after the ledger call; the
  result is the exception or the returned boolean, with the game as the call leaves it.
\<close>

definition place_tower :: "ext \<Rightarrow> int \<times> int \<Rightarrow> game \<Rightarrow> (error + bool) \<times> game" where
  "place_tower u pos g =
     (let ttype = tower_placement_state.tower_type (tower_placement g)
      in if \<not> truthy ttype then (Inr False, g)
         else if \<not> is_valid_tower_position u g pos then (Inr False, g)
         else
           let tower_cost = config_cost (tower_config_of (the ttype)) [];
               monster_coin_cost = monster_coin_cost_of (the ttype) 0;
               sp = spend_resources_for_tower (resource_manager g) tower_cost monster_coin_cost;
               g1 = g\<lparr>resource_manager := snd sp\<rparr>
           in if \<not> fst sp then (Inr False, g1)
              else (case create_tower u (the ttype) pos of
                      Inl e \<Rightarrow> (Inl e, g1)
                    | Inr tower \<Rightarrow> (Inr True, g1\<lparr>towers := towers g1 @ [tower]\<rparr>)))"

text \<open>
  \<open>handle_events\<close>: the preview follows the mouse; a left click tries to place the tower, a
  right click or Escape cancels. \<open>rect.center = mouse_pos\<close> moves the rectangle.
\<close>

definition move_preview :: "int \<times> int \<Rightarrow> game \<Rightarrow> game" where
  "move_preview mouse_pos g =
     (case tower_preview (tower_placement g) of
        None \<Rightarrow> g
      | Some p \<Rightarrow>
          g\<lparr>tower_placement := (tower_placement g)\<lparr>tower_preview :=
               Some (p\<lparr>tower.position := mouse_pos,
                       rect := (rect p)\<lparr>left := fst mouse_pos - width (rect p) div 2,
                                        top := snd mouse_pos - height (rect p) div 2\<rparr>\<rparr>)\<rparr>\<rparr>)"

fun placement_events :: "ext \<Rightarrow> int \<times> int \<Rightarrow> event list \<Rightarrow> game \<Rightarrow> (error + bool) \<times> game" where
  "placement_events u mouse_pos [] g = (Inr False, g)"
| "placement_events u mouse_pos (e # es) g =
     (if e = LeftClick then
        (case place_tower u mouse_pos g of
           (Inr True, g1) \<Rightarrow> (Inr True, change_state PlayingState g1)
         | (Inr False, g1) \<Rightarrow> placement_events u mouse_pos es g1
         | (Inl err, g1) \<Rightarrow> (Inl err, g1))
      else if e = RightClick then (Inr True, change_state PlayingState g)
      else if e = KeyEscape then (Inr True, change_state PlayingState g)
      else placement_events u mouse_pos es g)"

definition TowerPlacementState_handle_events ::
  "ext \<Rightarrow> int \<times> int \<Rightarrow> event list \<Rightarrow> game \<Rightarrow> (error + bool) \<times> game" where
  "TowerPlacementState_handle_events u mouse_pos events g =
     placement_events u mouse_pos events (move_preview mouse_pos g)"

subsection \<open>states/playing\_state.py\<close>

text \<open>
  The two statements of \<open>PlayingState.update\<close> that follow the updates of the castle, the
  buildings, the wave manager and the towers: the loss check and the continuous-wave
  auto-advance.
\<close>

definition check_game_over :: "game \<Rightarrow> game" where
  "check_game_over g = (if castle.health (castle g) \<le> 0 then change_state GameOverState g else g)"

definition continuous_wave_step :: "game \<Rightarrow> game" where
  "continuous_wave_step g =
     (if continuous_wave (wave_manager g) then
        if wave_completed (wave_manager g) \<and> \<not> wave_active (wave_manager g)
        then g\<lparr>wave_manager := snd (start_next_wave (wave_manager g))\<rparr>
        else g
      else g)"

subsection \<open>save\_system.py\<close>

text \<open>
  The dict that \<open>serialize_tower\<close> builds: a record whose optional keys are options.
  Pickling and unpickling return an equal dict.
\<close>

record tower_data =
  td_type :: string
  td_position :: "int \<times> int"
  td_level :: int
  td_damage :: real
  td_attack_speed :: real
  td_range :: real
  td_item_slots :: "string option list"
  td_aoe_radius :: "real option"
  td_slow_effect :: "real option"
  td_slow_duration :: "real option"

definition serialize_tower :: "tower \<Rightarrow> tower_data" where
  "serialize_tower t =
     \<lparr>td_type = class_name t, td_position = tower.position t, td_level = level t,
      td_damage = damage t, td_attack_speed = attack_speed t, td_range = range' t,
      td_item_slots = item_slots t,
      td_aoe_radius = (if class_name t = ''SplashTower'' then Some (aoe_radius t) else None),
      td_slow_effect = (if class_name t = ''FrozenTower''
                        then Some (slow_effect t) else None),
      td_slow_duration = (if class_name t = ''FrozenTower''
                          then Some (slow_duration t) else None)\<rparr>"

text \<open>
  \<open>deserialize_tower\<close>. \<open>hasattr(tower, 'aoe_radius')\<close> holds for the towers of type Splash and
  \<open>hasattr(tower, 'slow_effect')\<close> for those of type Frozen, by \<open>initialize_specific_properties\<close>.
  A missing key raises \<open>KeyError\<close>, which the \<open>except ValueError\<close> clause does not catch.
\<close>

definition deserialize_tower :: "ext \<Rightarrow> tower_data \<Rightarrow> error + tower" where
  "deserialize_tower u d =
     (case create_tower u (td_type d) (td_position d) of
        Inl ValueError \<Rightarrow> create_tower u ''Archer'' (td_position d)
      | Inl KeyError \<Rightarrow> Inl KeyError
      | Inr tower \<Rightarrow>
          let t1 = tower\<lparr>level := td_level d, damage := td_damage d,
                         attack_speed := td_attack_speed d, range' := td_range d,
                         item_slots := td_item_slots d\<rparr>
          in if td_type d = ''SplashTower'' \<and> tower.tower_type t1 = ''Splash'' then
               (case td_aoe_radius d of
                  None \<Rightarrow> Inl KeyError
                | Some a \<Rightarrow> Inr (t1\<lparr>aoe_radius := a\<rparr>))
             else if td_type d = ''FrozenTower'' \<and> tower.tower_type t1 = ''Frozen'' then
               (case td_slow_effect d of
                  None \<Rightarrow> Inl KeyError
                | Some e \<Rightarrow>
                    (case td_slow_duration d of
                       None \<Rightarrow> Inl KeyError
                     | Some sd \<Rightarrow> Inr (t1\<lparr>slow_effect := e, slow_duration := sd\<rparr>)))
             else Inr t1)"

text \<open>The statements of \<open>load_game\<close> that restore the wave manager from the saved wave.\<close>

definition load_game_wave :: "int \<Rightarrow> game \<Rightarrow> game" where
  "load_game_wave wave g =
     g\<lparr>wave_manager := (wave_manager g)\<lparr>wave_manager.current_wave := wave,
          active_monsters := [], wave_active := False, wave_completed := True\<rparr>\<rparr>"

subsection \<open>Auxiliary definitions\<close>

text \<open>The fields of the wave manager that only its own operations and the states write.\<close>

definition flags :: "wave_manager \<Rightarrow> int \<times> bool \<times> bool \<times> int" where
  "flags wm =
     (wave_manager.current_wave wm, wave_active wm, wave_completed wm, monsters_to_spawn wm)"

subsection \<open>Runs of the game\<close>

text \<open>
  The states that a game reaches from a new \<open>WaveManager\<close>: by every modelled operation
  that writes the wave manager, and by the other components (castle, monsters, buildings,
  towers, menus), which may change everything but the wave number, the two wave flags and
  the spawn quota.
\<close>

inductive reachable :: "monster_update \<Rightarrow> (monster \<Rightarrow> cost_map) \<Rightarrow> game \<Rightarrow> bool"
  for mu :: monster_update and drop_loot :: "monster \<Rightarrow> cost_map" where
  r_init: "wave_manager g = WaveManager_init \<Longrightarrow> reachable mu drop_loot g"
| r_start: "reachable mu drop_loot g \<Longrightarrow>
     reachable mu drop_loot (g\<lparr>wave_manager := snd (start_next_wave (wave_manager g))\<rparr>)"
| r_update: "reachable mu drop_loot g \<Longrightarrow> reachable mu drop_loot (update mu drop_loot new_monster dt g)"
| r_continuous: "reachable mu drop_loot g \<Longrightarrow> reachable mu drop_loot (continuous_wave_step g)"
| r_continue: "reachable mu drop_loot g \<Longrightarrow> reachable mu drop_loot (continue_game g)"
| r_set_wave: "reachable mu drop_loot g \<Longrightarrow> reachable mu drop_loot (set_wave n g)"
| r_load: "reachable mu drop_loot g \<Longrightarrow> reachable mu drop_loot (load_game_wave n g)"
| r_other: "reachable mu drop_loot g \<Longrightarrow> flags (wave_manager g') = flags (wave_manager g) \<Longrightarrow>
     reachable mu drop_loot g'"

subsection \<open>Modifier operations and the stats recomputed from base\<close>

datatype item_op = Equip "string option" int | Unequip int

fun run_item_op :: "ext \<Rightarrow> item_op \<Rightarrow> tower \<times> ledger option \<Rightarrow> tower \<times> ledger option" where
  "run_item_op u (Equip item slot_index) (t, rm) = snd (add_item u item slot_index rm t)"
| "run_item_op u (Unequip slot_index) (t, rm) = snd (remove_item u slot_index rm t)"

definition run_item_ops ::
  "ext \<Rightarrow> item_op list \<Rightarrow> tower \<times> ledger option \<Rightarrow> tower \<times> ledger option" where
  "run_item_ops u ops s = fold (run_item_op u) ops s"

text \<open>
  The derived stats of a tower as the claim lists them: damage, attack speed, range, the
  area radius of a Splash tower, the slow magnitude and duration of a Frozen tower, and the
  splash side effect of a single-target tower.
\<close>

definition derived_stats ::
  "tower \<Rightarrow> real \<times> real \<times> real \<times> real option \<times> (real \<times> real) option \<times> bool \<times> real" where
  "derived_stats t =
     (damage t, attack_speed t, range' t,
      (if tower.tower_type t = ''Splash'' then Some (aoe_radius t) else None),
      (if tower.tower_type t = ''Frozen'' then Some (slow_effect t, slow_duration t) else None),
      splash_damage_enabled t, splash_damage_radius t)"

text \<open>
  The stats computed afresh, following the spec's words: each base value, with the effect
  of every currently equipped modifier applied once. With \<open>k\<close> slots holding the
  area modifier, the multiplier 1.3 enters \<open>k\<close> times: into the area radius of a Splash
  tower and into the range of a Frozen tower; a single-target tower gets the splash side
  effect when \<open>k > 0\<close>.
\<close>

definition equipped_force :: "tower \<Rightarrow> nat" where
  "equipped_force t = length (filter (\<lambda>s. s = Some ''Unstoppable Force'') (item_slots t))"

definition fresh_stats ::
  "ext \<Rightarrow> tower \<Rightarrow> real \<times> real \<times> real \<times> real option \<times> (real \<times> real) option \<times> bool \<times> real" where
  "fresh_stats u t =
     (let k = equipped_force t;
          single = (tower.tower_type t = ''Archer'' \<or> tower.tower_type t = ''Sniper'')
      in (base_damage t, base_attack_speed t,
          (if tower.tower_type t = ''Frozen'' \<and> 0 < k
           then scale_value u (base_ref_range t * (13 / 10) ^ k) else base_range t),
          (if tower.tower_type t = ''Splash''
           then Some (if 0 < k then scale_value u (base_ref_aoe_radius t * (13 / 10) ^ k)
                      else base_aoe_radius t)
           else None),
          (if tower.tower_type t = ''Frozen''
           then Some (base_slow_effect t, base_slow_duration t) else None),
          single \<and> 0 < k,
          (if single \<and> 0 < k then scale_value u 30 else 0)))"

definition base_values :: "tower \<Rightarrow> string \<times> real \<times> real \<times> real \<times> real \<times> real \<times> real \<times> real \<times> real" where
  "base_values t =
     (tower.tower_type t, base_damage t, base_attack_speed t, base_range t, base_ref_range t,
      base_ref_aoe_radius t, base_aoe_radius t, base_slow_effect t, base_slow_duration t)"

subsection \<open>An atomic purchase\<close>

text \<open>
  What the spec asks of an upgrade purchase, in its words: the purchase succeeds iff the
  in-kind cost and the Monster Coin cost are affordable together; on success the ledger
  loses exactly these two costs, each once; on failure the ledger and the tower are as
  before. \<open>cost_total\<close> is the amount that a cost map asks of one resource kind.
\<close>

definition cost_total :: "cost_map \<Rightarrow> string \<Rightarrow> int" where
  "cost_total cost kind = sum_list (map snd (filter (\<lambda>ka. fst ka = kind) cost))"

definition atomic_purchase ::
  "ledger \<Rightarrow> cost_map \<Rightarrow> int \<Rightarrow> tower \<Rightarrow> bool \<times> tower \<times> ledger \<Rightarrow> bool" where
  "atomic_purchase rm cost monster_coin_cost t res =
     ((fst res = (has_resources rm cost \<and> monster_coin_cost \<le> get_resource rm ''Monster Coins''))
      \<and> (if fst res
          then (\<forall>kind. get_resource (snd (snd res)) kind =
                  get_resource rm kind - cost_total cost kind
                    - (if kind = ''Monster Coins'' then monster_coin_cost else 0))
          else snd (snd res) = rm \<and> fst (snd res) = t))"

text \<open>
  Two definitions for the proofs about \<open>apply_item_effects\<close>: the number of slots of a list that
  hold the area modifier, and the first half of \<open>apply_item_effects\<close>, which resets the
  derived stats to the base values.
\<close>

definition force_count :: "string option list \<Rightarrow> nat" where
  "force_count slots = length (filter (\<lambda>s. s = Some ''Unstoppable Force'') slots)"

definition reset_stats :: "tower \<Rightarrow> tower" where
  "reset_stats t =
     (let t1 = t\<lparr>damage := base_damage t, attack_speed := base_attack_speed t,
                 ref_range := base_ref_range t, range' := base_range t\<rparr>;
          t2 = (if tower.tower_type t1 = ''Splash'' then
                  t1\<lparr>ref_aoe_radius := base_ref_aoe_radius t1, aoe_radius := base_aoe_radius t1\<rparr>
                else if tower.tower_type t1 = ''Frozen'' then
                  t1\<lparr>slow_effect := base_slow_effect t1, slow_duration := base_slow_duration t1\<rparr>
                else t1)
      in t2\<lparr>splash_damage_enabled := False, splash_damage_radius := 0\<rparr>)"

text \<open>
  The test of the splash loop on one monster: it is not the primary target, it is not dead,
  and it is within the splash radius of the primary target.
\<close>

definition splashed :: "ext \<Rightarrow> tower \<Rightarrow> mref \<Rightarrow> monster_store \<Rightarrow> mref \<Rightarrow> bool" where
  "splashed u t target ms r =
     (r \<noteq> target \<and> \<not> is_dead (ms r)
      \<and> distance u (monster.position (ms r)) (monster.position (ms target))
            \<le> splash_damage_radius t)"

subsection \<open>Concrete inputs\<close>

text \<open>
  A regular monster, a castle, a game whose wave manager lists the monster of reference 0,
  and a new game.
\<close>

definition grunt :: monster where
  "grunt = \<lparr>monster.position = (0, 0), monster.health = 50, is_dead = False, flying = False,
            reached_castle = False, is_boss = False\<rparr>"

definition castle0 :: castle where
  "castle0 = \<lparr>castle.health = 1000, max_health = 1000, damage_reduction = 1 / 10, health_regen = 1\<rparr>"

definition game1 :: game where
  "game1 = \<lparr>wave_manager = WaveManager_init\<lparr>active_monsters := [0]\<rparr>,
             monsters = (\<lambda>_. grunt), next_ref = 1, resource_manager = (\<lambda>_. 0),
             castle = castle0, towers = [], buildings = [], running = True,
             current_state = PlayingState, game_over = GameOverState_init,
             tower_placement = TowerPlacementState_init\<rparr>"

definition game0 :: game where
  "game0 = \<lparr>wave_manager = WaveManager_init, monsters = (\<lambda>_. grunt), next_ref = 0,
             resource_manager = (\<lambda>_. 0), castle = castle0, towers = [], buildings = [],
             running = True, current_state = PlayingState, game_over = GameOverState_init,
             tower_placement = TowerPlacementState_init\<rparr>"

text \<open>A monster that walks into the castle at its first update.\<close>

definition walk_in :: monster_update where
  "walk_in dt c m = (m\<lparr>reached_castle := True\<rparr>, c, False)"

text \<open>A game in which boss wave 10 has just been started, and its first block of \<open>update\<close>.\<close>

definition boss_wave_game :: game where
  "boss_wave_game =
     (set_wave 9 game0)\<lparr>wave_manager := snd (start_next_wave (wave_manager (set_wave 9 game0)))\<rparr>"

definition bw1 :: game where
  "bw1 = boss_wave_game\<lparr>wave_manager := update_timers 2 (wave_manager boss_wave_game)\<rparr>"

text \<open>Games that have reached wave 15 and wave 4.\<close>

definition game15 :: game where
  "game15 = set_wave 15 game0"

definition game4 :: game where
  "game4 = set_wave 4 game0"

text \<open>
  Identity scaling, the Euclidean distance and a castle boundary that holds every position;
  a new Archer tower; a ledger that affords its first damage upgrade and one that does not.
\<close>

definition ext0 :: ext where
  "ext0 = \<lparr>scale_value = (\<lambda>v. v), scale_size = (\<lambda>s. s),
           distance = (\<lambda>p q. sqrt ((fst p - fst q)\<^sup>2 + (snd p - snd q)\<^sup>2)),
           is_position_within_castle = (\<lambda>c p. True)\<rparr>"

definition archer0 :: tower where
  "archer0 = ArcherTower ext0 (0, 0)"

definition rich :: ledger where
  "rich = (\<lambda>_. 0)(''Stone'' := 100, ''Monster Coins'' := 50)"

definition poor :: ledger where
  "poor = (\<lambda>_. 0)(''Stone'' := 100, ''Monster Coins'' := 10)"

text \<open>
  A new Splash tower, and four modifier operations: the area modifier into slot 0 twice,
  then into slot 1, then slot 1 emptied.
\<close>

definition splash0 :: tower where
  "splash0 = SplashTower ext0 (0, 0)"

definition ops0 :: "item_op list" where
  "ops0 = [Equip (Some ''Unstoppable Force'') 0, Equip (Some ''Unstoppable Force'') 0,
           Equip (Some ''Unstoppable Force'') 1, Unequip 1]"

text \<open>
  An Archer tower at the origin with the area modifier in slot 0, and three monsters of
  health 50 straight above it, at distances 50, 70 and 100.
\<close>

definition force_archer :: tower where
  "force_archer = fst (snd (add_item ext0 (Some ''Unstoppable Force'') 0 None archer0))"

definition three_monsters :: monster_store where
  "three_monsters =
     (\<lambda>r. grunt\<lparr>monster.position := (0, if r = 2 then 50 else if r = 3 then 70 else 100)\<rparr>)"

definition splash_game :: game where
  "splash_game = game0\<lparr>monsters := three_monsters,
      wave_manager := (wave_manager game0)\<lparr>active_monsters := [2, 3, 4]\<rparr>\<rparr>"

text \<open>A game with a given ledger in which the placement of an Archer tower is pending.\<close>

definition placing_game :: "ledger \<Rightarrow> game" where
  "placing_game rm = enter_tower_placement_mode ext0 ''Archer'' (game0\<lparr>resource_manager := rm\<rparr>)"

section \<open>Verified properties\<close>

subsection \<open>Helper lemmas\<close>

lemma handle_monster_death_regular:
  "r \<in> set (active_monsters (wave_manager w)) \<Longrightarrow> \<not> is_boss (monsters w r) \<Longrightarrow>
   handle_monster_death dl (Some r) w =
     w\<lparr>monsters := (monsters w)(r := (monsters w r)\<lparr>is_dead := True\<rparr>),
       resource_manager := add_resource (resource_manager w) ''Monster Coins'' 1\<rparr>"
  by (simp add: handle_monster_death_def Let_def)

lemma pow_bound: "n * 2 ^ n \<le> (3::nat) ^ n"
proof (induction n)
  case 0 show ?case by simp
next
  case (Suc n)
  consider "n = 0" | "n = 1" | "2 \<le> n" by linarith
  then show ?case
  proof cases
    case 3
    have "2 * 2 ^ n \<le> n * 2 ^ n" using 3 by simp
    then have "Suc n * 2 ^ Suc n \<le> 3 * (n * 2 ^ n)" by simp
    also have "\<dots> \<le> 3 * 3 ^ n" using Suc.IH by simp
    finally show ?thesis by simp
  qed simp_all
qed

lemma pow_bound_real: "real n * (2 / 3) ^ n \<le> 1"
proof -
  have "real (n * 2 ^ n) \<le> real (3 ^ n)" using pow_bound[of n] by (rule of_nat_mono)
  then have "real n * 2 ^ n \<le> 3 ^ n" by simp
  then have "real n * 2 ^ n / 3 ^ n \<le> 1" by (simp add: divide_le_eq)
  then show ?thesis by (simp add: power_divide)
qed

text \<open>The regular-wave count is never negative, also for a wave number below zero.\<close>

lemma quota_nonneg: "0 \<le> 5 + real_of_int w * (1 / 2) * (3 / 2) powi (w div 10)"
proof (cases "0 \<le> w")
  case True
  then have "0 \<le> w div 10" by simp
  then have "0 \<le> (3 / 2 :: real) powi (w div 10)" by (simp add: power_int_def)
  with True show ?thesis by simp
next
  case False
  define n where "n = nat (- (w div 10))"
  from False have neg: "w div 10 < 0" by simp
  then have wd: "w div 10 = - int n" by (simp add: n_def)
  have p: "(3 / 2 :: real) powi (w div 10) = (2 / 3) ^ n"
    using neg by (simp add: power_int_def n_def)
  have "- (10 * int n) \<le> w" using wd by linarith
  then have "real_of_int (- w) \<le> real_of_int (10 * int n)" by (subst of_int_le_iff) simp
  then have "- real_of_int w \<le> 10 * real n" by simp
  then have "(- real_of_int w * (1 / 2)) * (2 / 3) ^ n \<le> (5 * real n) * (2 / 3) ^ n"
    by (intro mult_right_mono) simp_all
  then have "- real_of_int w * (1 / 2) * (2 / 3) ^ n \<le> 5 * (real n * (2 / 3) ^ n)"
    by (simp only: mult.assoc)
  also have "\<dots> \<le> 5" using pow_bound_real[of n] by simp
  finally show ?thesis using p by simp
qed

lemma py_int_floor: "0 \<le> x \<Longrightarrow> py_int x = \<lfloor>x\<rfloor>"
  by (simp add: py_int_def)

subsection \<open>Death handling\<close>

text \<open>
  C1 (fails on the code). The claim: handling the death of the same monster twice credits
  the kill reward once, the second call being stopped by the monster's dead-flag. The
  handler sets \<open>is_dead\<close> but tests only membership in \<open>active_monsters\<close>, and it does not
  remove the monster: for a regular monster that is still listed, the second call credits
  a second Monster Coin although the first call has set the flag.
\<close>

theorem handle_monster_death_twice:
  "is_dead (monsters (handle_monster_death (\<lambda>_. []) (Some 0) game1) 0)
   \<and> get_resource (resource_manager game1) ''Monster Coins'' = 0
   \<and> get_resource (resource_manager (handle_monster_death (\<lambda>_. []) (Some 0) game1))
         ''Monster Coins'' = 1
   \<and> get_resource (resource_manager
         (handle_monster_death (\<lambda>_. []) (Some 0)
            (handle_monster_death (\<lambda>_. []) (Some 0) game1))) ''Monster Coins'' = 2"
  by (simp add: game1_def grunt_def handle_monster_death_regular add_resource_def
      get_resource_def WaveManager_init_def)

subsection \<open>Starting a wave\<close>

text \<open>
  C5. \<open>start_next_wave\<close> returns False and leaves the wave manager unchanged when a wave is
  active. Otherwise it returns True, adds one to the wave number, and sets the spawn quota
  to 1 when the new wave number is divisible by 10 and to
  floor(5 + wave * 0.5 * 1.5 ^ (wave div 10)) otherwise (with the flags and timers of a
  started wave).
\<close>

theorem start_next_wave_quota:
  "start_next_wave wm =
     (if wave_active wm then (False, wm)
      else (True, wm\<lparr>wave_manager.current_wave := wave_manager.current_wave wm + 1, wave_active := True,
                      wave_completed := False, spawn_timer := 0,
                      wave_start_animation_timer := 1,
                      monsters_to_spawn :=
                        (if (wave_manager.current_wave wm + 1) mod 10 = 0 then 1
                         else \<lfloor>5 + real_of_int (wave_manager.current_wave wm + 1) * (1 / 2)
                                  * (3 / 2) powi ((wave_manager.current_wave wm + 1) div 10)\<rfloor>)\<rparr>))"
  using quota_nonneg[of "wave_manager.current_wave wm + 1"]
  by (simp add: start_next_wave_def Let_def py_int_floor WAVE_MONSTER_COUNT_BASE_def
      WAVE_MONSTER_COUNT_MULTIPLIER_def)

subsection \<open>The wave flags\<close>

lemma handle_monster_death_wm [simp]:
  "wave_manager (handle_monster_death dl r w) = wave_manager w"
  by (simp add: handle_monster_death_def Let_def split: option.splits)

lemma remove_monsters_flags [simp]:
  "flags (wave_manager (remove_monsters dl rs w)) = flags (wave_manager w)"
  by (induction rs arbitrary: w) (simp_all add: Let_def flags_def)

lemma move_and_remove_flags [simp]:
  "flags (wave_manager (move_and_remove mu dl dt w)) = flags (wave_manager w)"
  by (simp add: move_and_remove_def Let_def)

lemma update_timers_flags [simp]:
  "flags (update_timers dt wm) = flags wm"
  by (simp add: update_timers_def Let_def flags_def)

lemma spawn_step_flags:
  "wave_manager.current_wave (wave_manager (spawn_step nm dt w)) = wave_manager.current_wave (wave_manager w)
   \<and> wave_active (wave_manager (spawn_step nm dt w)) = wave_active (wave_manager w)
   \<and> wave_completed (wave_manager (spawn_step nm dt w)) = wave_completed (wave_manager w)"
  by (simp add: spawn_step_def spawn_monster_def Let_def)

lemma spawn_step_flags2:
  "flags (wave_manager (spawn_step nm dt w)) =
     (wave_manager.current_wave (wave_manager w), wave_active (wave_manager w),
      wave_completed (wave_manager w), monsters_to_spawn (wave_manager (spawn_step nm dt w)))"
  by (simp add: flags_def spawn_step_flags)

lemma check_wave_complete_cases:
  "check_wave_complete w = w
   \<or> (\<not> wave_active (wave_manager (check_wave_complete w))
      \<and> wave_completed (wave_manager (check_wave_complete w))
      \<and> monsters_to_spawn (wave_manager (check_wave_complete w)) = 0
      \<and> active_monsters (wave_manager (check_wave_complete w)) = [])"
  by (simp add: check_wave_complete_def)

lemma check_wave_complete_wave [simp]:
  "wave_manager.current_wave (wave_manager (check_wave_complete w))
     = wave_manager.current_wave (wave_manager w)"
  by (simp add: check_wave_complete_def)

lemma flagsD:
  "flags a = flags b \<Longrightarrow> wave_manager.current_wave a = wave_manager.current_wave b
     \<and> wave_active a = wave_active b \<and> wave_completed a = wave_completed b
     \<and> monsters_to_spawn a = monsters_to_spawn b"
  by (simp add: flags_def)

lemma update_cases:
  "(wave_active (wave_manager (update mu dl nm dt g)) = wave_active (wave_manager g)
    \<and> wave_completed (wave_manager (update mu dl nm dt g)) = wave_completed (wave_manager g))
   \<or> (\<not> wave_active (wave_manager (update mu dl nm dt g))
      \<and> wave_completed (wave_manager (update mu dl nm dt g))
      \<and> monsters_to_spawn (wave_manager (update mu dl nm dt g)) = 0
      \<and> active_monsters (wave_manager (update mu dl nm dt g)) = [])"
proof -
  let ?w1 = "g\<lparr>wave_manager := update_timers dt (wave_manager g)\<rparr>"
  let ?w5 = "move_and_remove mu dl dt (spawn_step nm dt ?w1)"
  have f1: "wave_active (wave_manager ?w1) = wave_active (wave_manager g)
            \<and> wave_completed (wave_manager ?w1) = wave_completed (wave_manager g)"
    using flagsD[OF update_timers_flags[of dt "wave_manager g"]] by simp
  have f5: "wave_active (wave_manager ?w5) = wave_active (wave_manager g)
            \<and> wave_completed (wave_manager ?w5) = wave_completed (wave_manager g)"
    using flagsD[OF move_and_remove_flags[of mu dl dt "spawn_step nm dt ?w1"]]
      spawn_step_flags[of nm dt ?w1] f1 by simp
  show ?thesis
  proof (cases "wave_active (wave_manager ?w1)")
    case True
    then have u: "update mu dl nm dt g = check_wave_complete ?w5"
      by (simp add: update_def Let_def)
    show ?thesis using check_wave_complete_cases[of ?w5] f5 unfolding u by auto
  next
    case False
    then have "update mu dl nm dt g = ?w1" by (simp add: update_def Let_def)
    then show ?thesis using f1 by simp
  qed
qed

lemma update_wave:
  "wave_manager.current_wave (wave_manager (update mu dl nm dt g))
     = wave_manager.current_wave (wave_manager g)"
proof -
  let ?w1 = "g\<lparr>wave_manager := update_timers dt (wave_manager g)\<rparr>"
  have f1: "wave_manager.current_wave (wave_manager ?w1) = wave_manager.current_wave (wave_manager g)"
    using flagsD[OF update_timers_flags[of dt "wave_manager g"]] by simp
  have f5: "wave_manager.current_wave (wave_manager (move_and_remove mu dl dt (spawn_step nm dt ?w1)))
              = wave_manager.current_wave (wave_manager g)"
    using flagsD[OF move_and_remove_flags[of mu dl dt "spawn_step nm dt ?w1"]]
      spawn_step_flags[of nm dt ?w1] f1 by simp
  show ?thesis using f1 f5 by (simp add: update_def Let_def)
qed

lemma start_next_wave_flags:
  "wave_active wm \<noteq> wave_completed wm \<Longrightarrow>
   wave_active (snd (start_next_wave wm)) \<noteq> wave_completed (snd (start_next_wave wm))"
  by (simp add: start_next_wave_def Let_def)

lemma change_state_wm [simp]: "wave_manager (change_state s g) = wave_manager g"
  by (simp add: change_state_def state_enter_def state_exit_def GameOverState_enter_def
      TowerPlacementState_enter_def TowerPlacementState_exit_def Let_def)

lemma reachable_flags:
  "reachable mu dl g \<Longrightarrow> wave_active (wave_manager g) \<noteq> wave_completed (wave_manager g)"
proof (induction rule: reachable.induct)
  case (r_init g)
  then show ?case by (simp add: WaveManager_init_def)
next
  case (r_start g)
  then show ?case using start_next_wave_flags[of "wave_manager g"] by simp
next
  case (r_update g new_monster dt)
  then show ?case using update_cases[of mu dl new_monster dt g] by auto
next
  case (r_continuous g)
  then show ?case using start_next_wave_flags[of "wave_manager g"]
    by (simp add: continuous_wave_step_def)
next
  case (r_continue g)
  then show ?case by (simp add: continue_game_def Let_def)
next
  case (r_set_wave g n)
  then show ?case by (simp add: set_wave_def)
next
  case (r_load g n)
  then show ?case by (simp add: load_game_wave_def)
next
  case (r_other g g')
  then show ?case using flagsD[of "wave_manager g'" "wave_manager g"] by simp
qed

lemma boss_wave_game_eq: "wave_manager boss_wave_game = \<lparr>wave_manager.current_wave = 10, active_monsters = [], spawn_timer = 0, monsters_to_spawn = 1,
      wave_active = True, wave_completed = False, wave_start_animation_timer = 1,
      wave_complete_animation_timer = 0, continuous_wave = True\<rparr>"
  by (simp add: boss_wave_game_def set_wave_def game0_def WaveManager_init_def start_next_wave_def Let_def)


lemma bw1_wave_manager: "wave_manager bw1 = \<lparr>wave_manager.current_wave = 10, active_monsters = [], spawn_timer = 0, monsters_to_spawn = 1,
      wave_active = True, wave_completed = False, wave_start_animation_timer = -1,
      wave_complete_animation_timer = 0, continuous_wave = True\<rparr>"
  by (simp add: bw1_def boss_wave_game_eq update_timers_def)

lemma bw1_next_ref: "next_ref bw1 = 0"
  by (simp add: bw1_def boss_wave_game_def set_wave_def game0_def)

lemma bw1_spawn: "wave_manager (spawn_step grunt 2 bw1) = \<lparr>wave_manager.current_wave = 10, active_monsters = [0], spawn_timer = 0, monsters_to_spawn = 0,
      wave_active = True, wave_completed = False, wave_start_animation_timer = -1,
      wave_complete_animation_timer = 0, continuous_wave = True\<rparr>"
  by (simp add: spawn_step_def spawn_monster_def Let_def bw1_wave_manager bw1_next_ref MONSTER_SPAWN_INTERVAL_def)

lemma bw1_active: "active_monsters (wave_manager (move_and_remove walk_in (\<lambda>_. []) 2 (spawn_step grunt 2 bw1))) = []"
  by (simp add: move_and_remove_def Let_def bw1_spawn walk_in_def)


lemma bw1_quota: "monsters_to_spawn (wave_manager (move_and_remove walk_in (\<lambda>_. []) 2 (spawn_step grunt 2 bw1))) = 0"
  using flagsD[OF move_and_remove_flags[of walk_in "\<lambda>_. []" 2 "spawn_step grunt 2 bw1"]]
  by (simp add: bw1_spawn)

lemma boss_wave_update:
  "wave_completed (wave_manager (update walk_in (\<lambda>_. []) grunt 2 boss_wave_game))
   \<and> monsters_to_spawn (wave_manager (update walk_in (\<lambda>_. []) grunt 2 boss_wave_game)) = 0
   \<and> active_monsters (wave_manager (update walk_in (\<lambda>_. []) grunt 2 boss_wave_game)) = []"
proof -
  have "update walk_in (\<lambda>_. []) grunt 2 boss_wave_game
          = check_wave_complete (move_and_remove walk_in (\<lambda>_. []) 2 (spawn_step grunt 2 bw1))"
    using bw1_wave_manager by (simp add: update_def Let_def bw1_def)
  then show ?thesis by (simp add: check_wave_complete_def bw1_active bw1_quota)
qed

text \<open>
  C6. In every reachable state of the game the wave manager's \<open>wave_active\<close> and
  \<open>wave_completed\<close> are not both true; and whenever \<open>update\<close> turns a wave that was not
  completed into a completed one, the spawn quota is 0 and no monster is active afterwards.
\<close>

theorem wave_active_xor_completed:
  "reachable mu dl g \<Longrightarrow>
   \<not> (wave_active (wave_manager g) \<and> wave_completed (wave_manager g))
   \<and> (\<forall>new_monster dt.
        wave_completed (wave_manager (update mu dl new_monster dt g))
        \<and> \<not> wave_completed (wave_manager g) \<longrightarrow>
          monsters_to_spawn (wave_manager (update mu dl new_monster dt g)) = 0
          \<and> active_monsters (wave_manager (update mu dl new_monster dt g)) = [])"
proof
  assume r: "reachable mu dl g"
  show "\<not> (wave_active (wave_manager g) \<and> wave_completed (wave_manager g))"
    using reachable_flags[OF r] by auto
  show "\<forall>new_monster dt.
        wave_completed (wave_manager (update mu dl new_monster dt g))
        \<and> \<not> wave_completed (wave_manager g) \<longrightarrow>
          monsters_to_spawn (wave_manager (update mu dl new_monster dt g)) = 0
          \<and> active_monsters (wave_manager (update mu dl new_monster dt g)) = []"
    using update_cases[of mu dl _ _ g] by blast
qed

theorem wave_active_xor_completed_witness:
  "reachable walk_in (\<lambda>_. []) boss_wave_game
   \<and> \<not> (wave_active (wave_manager boss_wave_game) \<and> wave_completed (wave_manager boss_wave_game))
   \<and> \<not> wave_completed (wave_manager boss_wave_game)
   \<and> wave_completed (wave_manager (update walk_in (\<lambda>_. []) grunt 2 boss_wave_game))
   \<and> monsters_to_spawn (wave_manager (update walk_in (\<lambda>_. []) grunt 2 boss_wave_game)) = 0
   \<and> active_monsters (wave_manager (update walk_in (\<lambda>_. []) grunt 2 boss_wave_game)) = []"
proof -
  have "reachable walk_in (\<lambda>_. []) game0"
    by (rule r_init) (simp add: game0_def)
  then have "reachable walk_in (\<lambda>_. []) (set_wave 9 game0)" by (rule r_set_wave)
  then have r: "reachable walk_in (\<lambda>_. []) boss_wave_game"
    unfolding boss_wave_game_def by (rule r_start)
  have c: "wave_completed (wave_manager (update walk_in (\<lambda>_. []) grunt 2 boss_wave_game))
           \<and> \<not> wave_completed (wave_manager boss_wave_game)"
    using boss_wave_update by (simp add: boss_wave_game_eq)
  from wave_active_xor_completed[OF r] c r show ?thesis by blast
qed

subsection \<open>Game-over recovery\<close>

lemma continue_game_result:
  "wave_manager (continue_game g) =
     (wave_manager g)\<lparr>wave_manager.current_wave := setback_wave (game_over g) - 1,
        active_monsters := [], wave_active := False, wave_completed := True,
        monsters_to_spawn := 0\<rparr>
   \<and> castle (continue_game g) = (castle g)\<lparr>castle.health := max_health (castle g)\<rparr>
   \<and> current_state (continue_game g) = PlayingState
   \<and> resource_manager (continue_game g) = resource_manager g
   \<and> towers (continue_game g) = towers g"
  by (simp add: continue_game_def Let_def change_state_def state_enter_def state_exit_def
      TowerPlacementState_exit_def)


lemma enter_game_over:
  "game_over (change_state GameOverState g) =
     (game_over g)\<lparr>time_in_state := 0,
        game_over_state.current_wave := wave_manager.current_wave (wave_manager g),
        setback_wave := (if 11 \<le> wave_manager.current_wave (wave_manager g)
                         then max 1 (wave_manager.current_wave (wave_manager g) - 10) else 1)\<rparr>
   \<and> wave_manager (change_state GameOverState g) = wave_manager g
   \<and> castle (change_state GameOverState g) = castle g"
  by (simp add: change_state_def state_enter_def state_exit_def GameOverState_enter_def
      TowerPlacementState_exit_def Let_def)

lemma continue_after_game_over:
  "wave_manager.current_wave (wave_manager g) = w \<Longrightarrow>
   wave_manager.current_wave (wave_manager (continue_game (change_state GameOverState g)))
     = (if 11 \<le> w then w - 11 else 0)
   \<and> \<not> wave_active (wave_manager (continue_game (change_state GameOverState g)))
   \<and> castle.health (castle (continue_game (change_state GameOverState g)))
       = max_health (castle g)
   \<and> max_health (castle (continue_game (change_state GameOverState g))) = max_health (castle g)
   \<and> current_state (continue_game (change_state GameOverState g)) = PlayingState"
  by (simp add: continue_game_result enter_game_over)

lemma timeout_continues:
  "auto_continue_time (game_over g) \<le> dt \<Longrightarrow>
   wave_manager (GameOverState_update dt (change_state GameOverState g))
     = wave_manager (continue_game (change_state GameOverState g))
   \<and> castle (GameOverState_update dt (change_state GameOverState g))
     = castle (continue_game (change_state GameOverState g))
   \<and> current_state (GameOverState_update dt (change_state GameOverState g)) = PlayingState"
  by (simp add: GameOverState_update_def Let_def continue_game_result enter_game_over)

lemma key_continues:
  "snd (GameOverState_handle_events [KeyReturn] g) = continue_game g"
  by simp

lemma start_after_continue:
  "\<not> wave_active wm \<Longrightarrow> fst (start_next_wave wm)
     \<and> wave_manager.current_wave (snd (start_next_wave wm)) = wave_manager.current_wave wm + 1"
  by (simp add: start_next_wave_def Let_def)

lemma game15_wave: "wave_manager.current_wave (wave_manager game15) = 15"
  by (simp add: game15_def set_wave_def)

lemma game4_wave: "wave_manager.current_wave (wave_manager game4) = 4"
  by (simp add: game4_def set_wave_def)

text \<open>
  C2 (as stated it fails). The claim has the wave number set to 5 by continuing from a
  game-over at wave 15, and to 1 from a game-over at wave 4. \<open>continue_game\<close> stores the
  setback wave minus one, "because starting next wave increments": the wave number after
  continuing from wave 15 is 4.
\<close>

theorem continue_sets_wave_below_setback:
  "wave_manager.current_wave (wave_manager game15) = 15
   \<and> wave_manager.current_wave (wave_manager (continue_game (change_state GameOverState game15))) \<noteq> 5"
  using continue_after_game_over[OF game15_wave] game15_wave by simp

text \<open>
  C2, amended. When game-over is entered at wave 15, continuing (by the confirm key, by
  calling \<open>continue_game\<close>, or by the auto-continue timeout) sets the wave number to 4, one
  below the setback wave 5 = 15 - 10, restores the castle's health to its max health and
  returns to the playing state, so that the next wave started is wave 5. Entered at wave 4,
  continuing sets the wave number to 0 and the next wave started is wave 1.
\<close>

theorem game_over_recovery:
  assumes "wave_manager.current_wave (wave_manager g) = w" and "w = 15 \<or> w = 4"
    and "g' = continue_game (change_state GameOverState g)
         \<or> g' = snd (GameOverState_handle_events [KeyReturn] (change_state GameOverState g))
         \<or> (g' = GameOverState_update dt (change_state GameOverState g)
            \<and> auto_continue_time (game_over g) \<le> dt)"
  shows "wave_manager.current_wave (wave_manager g') = (if w = 15 then 4 else 0)
     \<and> castle.health (castle g') = max_health (castle g')
     \<and> current_state g' = PlayingState
     \<and> fst (start_next_wave (wave_manager g'))
     \<and> wave_manager.current_wave (snd (start_next_wave (wave_manager g')))
          = (if w = 15 then 5 else 1)"
proof -
  let ?c = "continue_game (change_state GameOverState g)"
  have eq: "wave_manager g' = wave_manager ?c \<and> castle g' = castle ?c
            \<and> current_state g' = PlayingState"
    using assms(3) timeout_continues[of g dt] continue_after_game_over[OF assms(1)]
    by (auto simp: key_continues)
  have c: "wave_manager.current_wave (wave_manager ?c) = (if w = 15 then 4 else 0)
           \<and> \<not> wave_active (wave_manager ?c)
           \<and> castle.health (castle ?c) = max_health (castle ?c)"
    using continue_after_game_over[OF assms(1)] assms(2) by auto
  show ?thesis
    using eq c start_after_continue[of "wave_manager ?c"] assms(2) by auto
qed

theorem game_over_recovery_witness:
  "wave_manager.current_wave (wave_manager game15) = 15
   \<and> wave_manager.current_wave (wave_manager (continue_game (change_state GameOverState game15))) = 4
   \<and> castle.health (castle (continue_game (change_state GameOverState game15)))
       = max_health (castle (continue_game (change_state GameOverState game15)))
   \<and> wave_manager.current_wave (snd (start_next_wave (wave_manager
         (continue_game (change_state GameOverState game15))))) = 5
   \<and> wave_manager.current_wave (wave_manager game4) = 4
   \<and> wave_manager.current_wave (wave_manager (continue_game (change_state GameOverState game4))) = 0
   \<and> wave_manager.current_wave (snd (start_next_wave (wave_manager
         (continue_game (change_state GameOverState game4))))) = 1"
  using game_over_recovery[OF game15_wave, of "continue_game (change_state GameOverState game15)" 0]
    game_over_recovery[OF game4_wave, of "continue_game (change_state GameOverState game4)" 0]
    game15_wave game4_wave by simp

subsection \<open>The wave number over time\<close>

text \<open>
  C10 (as stated it fails). The claim has no operation ever lower the wave number.
  Game-over recovery lowers it: entered at wave 20, continuing leaves wave number 9.
\<close>

theorem continue_game_lowers_wave:
  "wave_manager.current_wave (wave_manager (continue_game (change_state GameOverState (set_wave 20 game0))))
     < wave_manager.current_wave (wave_manager (set_wave 20 game0))"
proof -
  have "wave_manager.current_wave (wave_manager (set_wave 20 game0)) = 20"
    by (simp add: set_wave_def)
  from continue_after_game_over[OF this] this show ?thesis by simp
qed

text \<open>
  C10, amended. Wave advancement never lowers the wave number: \<open>start_next_wave\<close> and the
  continuous-mode auto-advance keep or raise it, and the wave manager's \<open>update\<close> keeps it.
  Game-over recovery sets it back, to w - 11 when it is entered at a wave w of at least
  11 and to 0 otherwise, and \<open>set_wave\<close> sets it to the number it is given.
\<close>

theorem wave_number_steps:
  "wave_manager.current_wave (wave_manager g)
     \<le> wave_manager.current_wave (snd (start_next_wave (wave_manager g)))
   \<and> wave_manager.current_wave (wave_manager (update mu dl new_monster dt g))
       = wave_manager.current_wave (wave_manager g)
   \<and> wave_manager.current_wave (wave_manager g)
       \<le> wave_manager.current_wave (wave_manager (continuous_wave_step g))
   \<and> wave_manager.current_wave (wave_manager (continue_game (change_state GameOverState g)))
       = (if 11 \<le> wave_manager.current_wave (wave_manager g)
          then wave_manager.current_wave (wave_manager g) - 11 else 0)
   \<and> wave_manager.current_wave (wave_manager (set_wave n g)) = n"
proof -
  have s: "wave_manager.current_wave (wave_manager g)
     \<le> wave_manager.current_wave (snd (start_next_wave (wave_manager g)))"
    by (simp add: start_next_wave_def Let_def)
  then have c: "wave_manager.current_wave (wave_manager g)
       \<le> wave_manager.current_wave (wave_manager (continuous_wave_step g))"
    by (simp add: continuous_wave_step_def)
  show ?thesis using s c update_wave[of mu dl new_monster dt g] continue_after_game_over[of g]
    by (simp add: set_wave_def)
qed

subsection \<open>Upgrade purchases\<close>

lemma fold_deduct: "fold deduct cost rm kind = rm kind - cost_total cost kind"
  by (induction cost arbitrary: rm) (simp_all add: cost_total_def deduct_def)

lemma tower_cost_keys:
  "fst ` set (config_cost (tower_config_of ttype) [(''Stone'', 20)]) \<subseteq> {''Stone'', ''Iron'', ''Copper''}"
  by (simp add: config_cost_def tower_config_of_def TOWER_TYPES_def)

lemma scaled_cost_keys: "map fst (scaled_cost t lvl) = map fst (config_cost (tower_config_of (tower.tower_type t)) [(''Stone'', 20)])"
  by (simp add: scaled_cost_def Let_def split_def comp_def)


lemma scaled_cost_no_coins: "cost_total (scaled_cost t lvl) ''Monster Coins'' = 0"
proof -
  have "fst ` set (scaled_cost t lvl) = set (map fst (scaled_cost t lvl))" by simp
  also have "\<dots> = fst ` set (config_cost (tower_config_of (tower.tower_type t)) [(''Stone'', 20)])"
    by (simp only: scaled_cost_keys) simp
  also have "\<dots> \<subseteq> {''Stone'', ''Iron'', ''Copper''}" by (rule tower_cost_keys)
  finally have "''Monster Coins'' \<notin> fst ` set (scaled_cost t lvl)" by auto
  then have "filter (\<lambda>ka. fst ka = ''Monster Coins'') (scaled_cost t lvl) = []"
    by (force simp: filter_empty_conv)
  then show ?thesis by (simp add: cost_total_def)
qed

lemma purchase_generic:
  assumes "cost_total cost ''Monster Coins'' = 0"
  shows "atomic_purchase rm cost mc t
     (if \<not> has_resources rm cost \<or> get_resource rm ''Monster Coins'' < mc then (False, t, rm)
      else if fst (spend_resources rm cost)
        then (True, t', snd (spend_resource (snd (spend_resources rm cost)) ''Monster Coins'' mc))
        else (False, t, snd (spend_resources rm cost)))"
proof (cases "has_resources rm cost \<and> mc \<le> get_resource rm ''Monster Coins''")
  case True
  then have sp: "spend_resources rm cost = (True, fold deduct cost rm)"
    by (simp add: spend_resources_def)
  have mc: "get_resource (fold deduct cost rm) ''Monster Coins'' = get_resource rm ''Monster Coins''"
    using assms by (simp add: get_resource_def fold_deduct)
  then have sp2: "spend_resource (fold deduct cost rm) ''Monster Coins'' mc
                 = (True, deduct (''Monster Coins'', mc) (fold deduct cost rm))"
    using True by (simp add: spend_resource_def)
  show ?thesis using True
    by (simp add: atomic_purchase_def sp sp2 get_resource_def deduct_def fold_deduct)
next
  case False
  then show ?thesis by (auto simp: atomic_purchase_def)
qed

lemma archer0_costs:
  "calculate_damage_upgrade_cost archer0 = [(''Stone'', 20)]
   \<and> calculate_damage_upgrade_monster_coin_cost archer0 = 15"
  by (simp add: calculate_damage_upgrade_cost_def calculate_damage_upgrade_monster_coin_cost_def
      scaled_cost_def scaled_coin_cost_def archer0_def ArcherTower_def Tower_init_def Let_def
      config_cost_def tower_config_of_def TOWER_TYPES_def monster_coin_cost_of_def
      TOWER_MONSTER_COIN_COSTS_def py_int_def)

text \<open>
  C3. For the three upgrade paths of a tower (damage, attack speed, range), at every level
  and for every ledger: the purchase succeeds iff the ledger affords the in-kind resource
  cost and holds the Monster Coin cost; on success the ledger loses exactly the two costs,
  each once; on failure the ledger and the tower are unchanged.
\<close>

theorem upgrade_purchase_atomic:
  "atomic_purchase rm (calculate_damage_upgrade_cost t)
     (calculate_damage_upgrade_monster_coin_cost t) t (upgrade_damage u t rm)
   \<and> atomic_purchase rm (calculate_attack_speed_upgrade_cost t)
     (calculate_attack_speed_upgrade_monster_coin_cost t) t (upgrade_attack_speed u t rm)
   \<and> atomic_purchase rm (calculate_range_upgrade_cost t)
     (calculate_range_upgrade_monster_coin_cost t) t (upgrade_range u t rm)"
proof (intro conjI)
  show "atomic_purchase rm (calculate_damage_upgrade_cost t)
     (calculate_damage_upgrade_monster_coin_cost t) t (upgrade_damage u t rm)"
    unfolding upgrade_damage_def Let_def calculate_damage_upgrade_cost_def
    by (rule purchase_generic) (rule scaled_cost_no_coins)
  show "atomic_purchase rm (calculate_attack_speed_upgrade_cost t)
     (calculate_attack_speed_upgrade_monster_coin_cost t) t (upgrade_attack_speed u t rm)"
    unfolding upgrade_attack_speed_def Let_def calculate_attack_speed_upgrade_cost_def
    by (rule purchase_generic) (rule scaled_cost_no_coins)
  show "atomic_purchase rm (calculate_range_upgrade_cost t)
     (calculate_range_upgrade_monster_coin_cost t) t (upgrade_range u t rm)"
    unfolding upgrade_range_def Let_def calculate_range_upgrade_cost_def
    by (rule purchase_generic) (rule scaled_cost_no_coins)
qed


theorem upgrade_purchase_atomic_witness:
  "fst (upgrade_damage ext0 archer0 rich)
   \<and> get_resource (snd (snd (upgrade_damage ext0 archer0 rich))) ''Stone'' = 80
   \<and> get_resource (snd (snd (upgrade_damage ext0 archer0 rich))) ''Monster Coins'' = 35
   \<and> \<not> fst (upgrade_damage ext0 archer0 poor)
   \<and> snd (snd (upgrade_damage ext0 archer0 poor)) = poor"
proof -
  have r: "has_resources rich [(''Stone'', 20)] \<and> get_resource rich ''Monster Coins'' = 50
           \<and> get_resource rich ''Stone'' = 100"
    by (simp add: has_resources_def get_resource_def rich_def)
  have p: "get_resource poor ''Monster Coins'' = 10"
    by (simp add: get_resource_def poor_def)
  have c: "cost_total [(''Stone'', 20)] ''Stone'' = 20
           \<and> cost_total [(''Stone'', 20)] ''Monster Coins'' = 0"
    by (simp add: cost_total_def)
  from upgrade_purchase_atomic[of rich archer0 ext0] upgrade_purchase_atomic[of poor archer0 ext0]
  show ?thesis
    unfolding atomic_purchase_def by (simp add: archer0_costs r p c)
qed

subsection \<open>Saving and loading a tower\<close>

text \<open>
  C7 (fails on the code). The claim: a tower that is serialized and rebuilt through the
  factory has the stats of the original. \<open>serialize_tower\<close> stores the class name, such as
  SniperTower, as the type; the factory knows the type Sniper only, raises \<open>ValueError\<close>, and
  \<open>deserialize_tower\<close> falls back to a new Archer tower: a Sniper tower of damage 50 comes
  back as an Archer tower of damage 10.
\<close>

theorem sniper_round_trip_gives_archer:
  "deserialize_tower u (serialize_tower (SniperTower u pos)) = Inr (ArcherTower u pos)
   \<and> damage (SniperTower u pos) = 50 \<and> damage (ArcherTower u pos) = 10"
  by (simp add: deserialize_tower_def serialize_tower_def create_tower_def SniperTower_def
      ArcherTower_def Tower_init_def Let_def tower_config_of_def TOWER_TYPES_def config_get_def)

subsection \<open>Modifiers\<close>

lemma item_effect_values:
  "item_effect_get ''Unstoppable Force'' ''aoe_radius_multiplier'' (13 / 10) = 13 / 10
   \<and> item_effect_get ''Unstoppable Force'' ''splash_damage_radius'' 30 = 30"
  by (simp add: item_effect_get_def ITEM_EFFECTS_def)

lemma apply_item_other:
  "s \<noteq> Some ''Unstoppable Force'' \<Longrightarrow> apply_item u s t = t"
  by (simp add: apply_item_def)

lemma apply_item_force:
  "apply_item u (Some ''Unstoppable Force'') t =
     (if tower.tower_type t = ''Splash'' then
        t\<lparr>ref_aoe_radius := ref_aoe_radius t * (13 / 10),
          aoe_radius := scale_value u (ref_aoe_radius t * (13 / 10))\<rparr>
      else if tower.tower_type t = ''Frozen'' then
        t\<lparr>ref_range := ref_range t * (13 / 10),
          range' := scale_value u (ref_range t * (13 / 10))\<rparr>
      else if tower.tower_type t = ''Archer'' \<or> tower.tower_type t = ''Sniper'' then
        t\<lparr>splash_damage_enabled := True, splash_damage_radius := scale_value u 30\<rparr>
      else t)"
  by (simp add: apply_item_def item_effect_values truthy_def Let_def)


lemma fold_splash:
  "tower.tower_type t = ''Splash'' \<Longrightarrow>
   fold (apply_item u) slots t =
     (if force_count slots = 0 then t
      else t\<lparr>ref_aoe_radius := ref_aoe_radius t * (13 / 10) ^ force_count slots,
             aoe_radius := scale_value u (ref_aoe_radius t * (13 / 10) ^ force_count slots)\<rparr>)"
proof (induction slots arbitrary: t)
  case Nil
  then show ?case by (simp add: force_count_def)
next
  case (Cons s slots)
  show ?case
  proof (cases "s = Some ''Unstoppable Force''")
    case True
    let ?t1 = "t\<lparr>ref_aoe_radius := ref_aoe_radius t * (13 / 10),
          aoe_radius := scale_value u (ref_aoe_radius t * (13 / 10))\<rparr>"
    have a: "apply_item u s t = ?t1" using True Cons.prems by (simp add: apply_item_force)
    have k: "force_count (s # slots) = Suc (force_count slots)"
      using True by (simp add: force_count_def)
    have "tower.tower_type ?t1 = ''Splash''" using Cons.prems by simp
    from Cons.IH[OF this] show ?thesis
      by (simp add: a k mult.assoc)
  next
    case False
    then have "force_count (s # slots) = force_count slots" by (simp add: force_count_def)
    then show ?thesis using False Cons by (simp add: apply_item_other)
  qed
qed

lemma fold_frozen:
  "tower.tower_type t = ''Frozen'' \<Longrightarrow>
   fold (apply_item u) slots t =
     (if force_count slots = 0 then t
      else t\<lparr>ref_range := ref_range t * (13 / 10) ^ force_count slots,
             range' := scale_value u (ref_range t * (13 / 10) ^ force_count slots)\<rparr>)"
proof (induction slots arbitrary: t)
  case Nil
  then show ?case by (simp add: force_count_def)
next
  case (Cons s slots)
  show ?case
  proof (cases "s = Some ''Unstoppable Force''")
    case True
    let ?t1 = "t\<lparr>ref_range := ref_range t * (13 / 10),
          range' := scale_value u (ref_range t * (13 / 10))\<rparr>"
    have a: "apply_item u s t = ?t1" using True Cons.prems by (simp add: apply_item_force)
    have k: "force_count (s # slots) = Suc (force_count slots)"
      using True by (simp add: force_count_def)
    have "tower.tower_type ?t1 = ''Frozen''" using Cons.prems by simp
    from Cons.IH[OF this] show ?thesis
      by (simp add: a k mult.assoc)
  next
    case False
    then have "force_count (s # slots) = force_count slots" by (simp add: force_count_def)
    then show ?thesis using False Cons by (simp add: apply_item_other)
  qed
qed

lemma no_truthy_no_force: "\<not> list_ex truthy slots \<Longrightarrow> force_count slots = 0"
proof (induction slots)
  case Nil
  then show ?case by (simp add: force_count_def)
next
  case (Cons s slots)
  then have "\<not> truthy s" and "force_count slots = 0" by simp_all
  moreover have "truthy (Some ''Unstoppable Force'')" by (simp add: truthy_def)
  ultimately have "s \<noteq> Some ''Unstoppable Force''" by auto
  then show ?case using \<open>force_count slots = 0\<close> by (simp add: force_count_def)
qed

lemma apply_item_force_other:
  assumes "tower.tower_type t \<noteq> ''Splash''" "tower.tower_type t \<noteq> ''Frozen''"
   "tower.tower_type t \<noteq> ''Archer''" "tower.tower_type t \<noteq> ''Sniper''"
  shows "apply_item u (Some ''Unstoppable Force'') t = t"
  by (simp only: apply_item_force assms if_False simp_thms)

lemma apply_item_force_single:
  assumes "tower.tower_type t = ''Archer'' \<or> tower.tower_type t = ''Sniper''"
  shows "apply_item u (Some ''Unstoppable Force'') t =
           t\<lparr>splash_damage_enabled := True, splash_damage_radius := scale_value u 30\<rparr>"
proof -
  have "tower.tower_type t \<noteq> ''Splash''" "tower.tower_type t \<noteq> ''Frozen''"
    using assms by auto
  then show ?thesis by (simp only: apply_item_force assms if_False if_True simp_thms)
qed


lemma fold_single:
  "tower.tower_type t = ''Archer'' \<or> tower.tower_type t = ''Sniper'' \<Longrightarrow>
   fold (apply_item u) slots t =
     (if force_count slots = 0 then t
      else t\<lparr>splash_damage_enabled := True, splash_damage_radius := scale_value u 30\<rparr>)"
proof (induction slots arbitrary: t)
  case Nil
  then show ?case by (simp add: force_count_def)
next
  case (Cons s slots)
  show ?case
  proof (cases "s = Some ''Unstoppable Force''")
    case True
    let ?t1 = "t\<lparr>splash_damage_enabled := True, splash_damage_radius := scale_value u 30\<rparr>"
    have a: "apply_item u s t = ?t1"
      using True apply_item_force_single[OF Cons.prems] by simp
    have k: "force_count (s # slots) = Suc (force_count slots)"
      using True by (simp add: force_count_def)
    have "tower.tower_type ?t1 = ''Archer'' \<or> tower.tower_type ?t1 = ''Sniper''"
      using Cons.prems by simp
    from Cons.IH[OF this] show ?thesis
      by (simp add: a k)
  next
    case False
    then have k: "force_count (s # slots) = force_count slots" by (simp add: force_count_def)
    have "apply_item u s t = t" using False by (rule apply_item_other)
    then show ?thesis using Cons.IH[OF Cons.prems] k by simp
  qed
qed

lemma fold_other:
  "tower.tower_type t \<noteq> ''Splash'' \<Longrightarrow> tower.tower_type t \<noteq> ''Frozen'' \<Longrightarrow>
   tower.tower_type t \<noteq> ''Archer'' \<Longrightarrow> tower.tower_type t \<noteq> ''Sniper'' \<Longrightarrow>
   fold (apply_item u) slots t = t"
proof (induction slots arbitrary: t)
  case Nil
  then show ?case by simp
next
  case (Cons s slots)
  have "apply_item u s t = t"
  proof (cases "s = Some ''Unstoppable Force''")
    case True
    then show ?thesis using apply_item_force_other[OF Cons.prems] by simp
  next
    case False
    then show ?thesis by (rule apply_item_other)
  qed
  then show ?case using Cons.IH[OF Cons.prems] by simp
qed

lemma apply_item_effects_alt:
  "apply_item_effects u t =
     (if \<not> list_ex truthy (item_slots t) then (reset_stats t)\<lparr>has_item_effects := False\<rparr>
      else fold (apply_item u) (item_slots t) ((reset_stats t)\<lparr>has_item_effects := True\<rparr>))"
  by (simp add: apply_item_effects_def reset_stats_def Let_def)

lemma reset_stats_fields:
  "tower.tower_type (reset_stats t) = tower.tower_type t
   \<and> item_slots (reset_stats t) = item_slots t
   \<and> base_values (reset_stats t) = base_values t
   \<and> damage (reset_stats t) = base_damage t
   \<and> attack_speed (reset_stats t) = base_attack_speed t
   \<and> ref_range (reset_stats t) = base_ref_range t
   \<and> range' (reset_stats t) = base_range t
   \<and> splash_damage_enabled (reset_stats t) = False
   \<and> splash_damage_radius (reset_stats t) = 0"
  by (simp add: reset_stats_def Let_def base_values_def)

lemma reset_stats_splash:
  "tower.tower_type t = ''Splash'' \<Longrightarrow>
     ref_aoe_radius (reset_stats t) = base_ref_aoe_radius t
     \<and> aoe_radius (reset_stats t) = base_aoe_radius t"
  by (simp add: reset_stats_def Let_def)

lemma reset_stats_frozen:
  "tower.tower_type t = ''Frozen'' \<Longrightarrow>
     slow_effect (reset_stats t) = base_slow_effect t
     \<and> slow_duration (reset_stats t) = base_slow_duration t"
  by (simp add: reset_stats_def Let_def)

lemma effects_kept:
  "tower.tower_type (apply_item_effects u t) = tower.tower_type t
   \<and> item_slots (apply_item_effects u t) = item_slots t
   \<and> base_values (apply_item_effects u t) = base_values t"
proof -
  let ?r = "(reset_stats t)\<lparr>has_item_effects := True\<rparr>"
  have r: "tower.tower_type ?r = tower.tower_type t \<and> item_slots ?r = item_slots t
           \<and> base_values ?r = base_values t"
    using reset_stats_fields[of t] by (simp add: base_values_def)
  have f: "tower.tower_type (fold (apply_item u) slots ?r) = tower.tower_type ?r
           \<and> item_slots (fold (apply_item u) slots ?r) = item_slots ?r
           \<and> base_values (fold (apply_item u) slots ?r) = base_values ?r" for slots
  proof -
    consider (splash) "tower.tower_type ?r = ''Splash''"
      | (frozen) "tower.tower_type ?r = ''Frozen''"
      | (single) "tower.tower_type ?r = ''Archer'' \<or> tower.tower_type ?r = ''Sniper''"
      | (other) "tower.tower_type ?r \<noteq> ''Splash''" "tower.tower_type ?r \<noteq> ''Frozen''"
                "tower.tower_type ?r \<noteq> ''Archer''" "tower.tower_type ?r \<noteq> ''Sniper''"
      by blast
    then show ?thesis
    proof cases
      case splash
      show ?thesis unfolding fold_splash[OF splash] by (simp add: base_values_def)
    next
      case frozen
      show ?thesis unfolding fold_frozen[OF frozen] by (simp add: base_values_def)
    next
      case single
      show ?thesis unfolding fold_single[OF single] by (simp add: base_values_def)
    next
      case other
      show ?thesis unfolding fold_other[OF other] by simp
    qed
  qed
  show ?thesis
  proof (cases "list_ex truthy (item_slots t)")
    case True
    then have "apply_item_effects u t = fold (apply_item u) (item_slots t) ?r"
      by (simp add: apply_item_effects_alt)
    then show ?thesis using f[of "item_slots t"] r by simp
  next
    case False
    then have "apply_item_effects u t = (reset_stats t)\<lparr>has_item_effects := False\<rparr>"
      by (simp add: apply_item_effects_alt)
    then show ?thesis using reset_stats_fields[of t] by (simp add: base_values_def)
  qed
qed

lemma equipped_force_count: "equipped_force t = force_count (item_slots t)"
  by (simp add: equipped_force_def force_count_def)

lemma effects_fresh: "derived_stats (apply_item_effects u t) = fresh_stats u t"
proof (cases "list_ex truthy (item_slots t)")
  case False
  then have a: "apply_item_effects u t = (reset_stats t)\<lparr>has_item_effects := False\<rparr>"
    by (simp add: apply_item_effects_alt)
  have k: "equipped_force t = 0"
    using no_truthy_no_force[OF False] by (simp add: equipped_force_count)
  show ?thesis
    using reset_stats_fields[of t] reset_stats_splash[of t] reset_stats_frozen[of t]
    by (simp add: a k derived_stats_def fresh_stats_def)
next
  case True
  let ?r = "(reset_stats t)\<lparr>has_item_effects := True\<rparr>"
  let ?k = "force_count (item_slots t)"
  have a: "apply_item_effects u t = fold (apply_item u) (item_slots t) ?r"
    using True by (simp add: apply_item_effects_alt)
  have ty: "tower.tower_type ?r = tower.tower_type t" using reset_stats_fields[of t] by simp
  consider (splash) "tower.tower_type t = ''Splash''"
    | (frozen) "tower.tower_type t = ''Frozen''"
    | (single) "tower.tower_type t = ''Archer'' \<or> tower.tower_type t = ''Sniper''"
    | (other) "tower.tower_type t \<noteq> ''Splash''" "tower.tower_type t \<noteq> ''Frozen''"
              "tower.tower_type t \<noteq> ''Archer''" "tower.tower_type t \<noteq> ''Sniper''"
    by blast
  then show ?thesis
  proof cases
    case splash
    then have s: "tower.tower_type ?r = ''Splash''" using ty by simp
    have n: "tower.tower_type t \<noteq> ''Frozen''" "tower.tower_type t \<noteq> ''Archer''"
      "tower.tower_type t \<noteq> ''Sniper''" using splash by simp_all
    show ?thesis
      unfolding a fold_splash[OF s]
      using reset_stats_fields[of t] reset_stats_splash[OF splash] splash n
      by (simp add: derived_stats_def fresh_stats_def equipped_force_count)
  next
    case frozen
    then have s: "tower.tower_type ?r = ''Frozen''" using ty by simp
    have n: "tower.tower_type t \<noteq> ''Splash''" "tower.tower_type t \<noteq> ''Archer''"
      "tower.tower_type t \<noteq> ''Sniper''" using frozen by simp_all
    show ?thesis
      unfolding a fold_frozen[OF s]
      using reset_stats_fields[of t] reset_stats_frozen[OF frozen] frozen n
      by (simp add: derived_stats_def fresh_stats_def equipped_force_count)
  next
    case single
    then have s: "tower.tower_type ?r = ''Archer'' \<or> tower.tower_type ?r = ''Sniper''"
      using ty by simp
    have n: "tower.tower_type t \<noteq> ''Splash''" "tower.tower_type t \<noteq> ''Frozen''"
      using single by auto
    show ?thesis
      unfolding a fold_single[OF s]
      using reset_stats_fields[of t] single n
      by (simp add: derived_stats_def fresh_stats_def equipped_force_count)
  next
    case other
    then have s: "tower.tower_type ?r \<noteq> ''Splash''" "tower.tower_type ?r \<noteq> ''Frozen''"
                "tower.tower_type ?r \<noteq> ''Archer''" "tower.tower_type ?r \<noteq> ''Sniper''"
      using ty by simp_all
    show ?thesis
      unfolding a fold_other[OF s]
      using reset_stats_fields[of t] other
      by (simp add: derived_stats_def fresh_stats_def equipped_force_count)
  qed
qed

lemma fresh_stats_cong:
  "base_values a = base_values b \<Longrightarrow> item_slots a = item_slots b \<Longrightarrow>
   fresh_stats u a = fresh_stats u b"
  by (simp add: fresh_stats_def base_values_def equipped_force_def)

lemma effects_invariant:
  "derived_stats (apply_item_effects u t) = fresh_stats u (apply_item_effects u t)
   \<and> base_values (apply_item_effects u t) = base_values t"
  using effects_fresh[of u t] effects_kept[of u t]
    fresh_stats_cong[of "apply_item_effects u t" t u] by simp

lemma base_values_slots [simp]: "base_values (t\<lparr>item_slots := xs\<rparr>) = base_values t"
  by (simp add: base_values_def)

lemma run_item_op_invariant:
  assumes "derived_stats t = fresh_stats u t"
  shows "derived_stats (fst (run_item_op u op (t, rm))) = fresh_stats u (fst (run_item_op u op (t, rm)))
     \<and> base_values (fst (run_item_op u op (t, rm))) = base_values t"
proof (cases op)
  case (Equip item slot_index)
  show ?thesis
  proof (cases "0 \<le> slot_index \<and> slot_index < int (length (item_slots t))")
    case True
    then have "fst (run_item_op u op (t, rm))
                 = apply_item_effects u (t\<lparr>item_slots := (item_slots t)[nat slot_index := item]\<rparr>)"
      using Equip by (simp add: add_item_def Let_def)
    then show ?thesis
      using effects_invariant[of u "t\<lparr>item_slots := (item_slots t)[nat slot_index := item]\<rparr>"]
      by simp
  next
    case False
    have "add_item u item slot_index rm t = (False, t, rm)"
      by (simp only: add_item_def False if_False)
    then have "fst (run_item_op u op (t, rm)) = t" using Equip by simp
    then show ?thesis using assms by simp
  qed
next
  case (Unequip slot_index)
  show ?thesis
  proof (cases "0 \<le> slot_index \<and> slot_index < int (length (item_slots t))
         \<and> truthy (item_slots t ! nat slot_index)")
    case True
    then have "fst (run_item_op u op (t, rm))
                 = apply_item_effects u (t\<lparr>item_slots := (item_slots t)[nat slot_index := None]\<rparr>)"
      using Unequip by (simp add: remove_item_def Let_def)
    then show ?thesis
      using effects_invariant[of u "t\<lparr>item_slots := (item_slots t)[nat slot_index := None]\<rparr>"]
      by simp
  next
    case False
    have "remove_item u slot_index rm t = (None, t, rm)"
      by (simp only: remove_item_def False if_False)
    then have "fst (run_item_op u op (t, rm)) = t" using Unequip by simp
    then show ?thesis using assms by simp
  qed
qed

lemma new_towers_fresh:
  "derived_stats (ArcherTower u pos) = fresh_stats u (ArcherTower u pos)"
  "derived_stats (SniperTower u pos) = fresh_stats u (SniperTower u pos)"
  "derived_stats (SplashTower u pos) = fresh_stats u (SplashTower u pos)"
  "derived_stats (FrozenTower u pos) = fresh_stats u (FrozenTower u pos)"
  by (simp_all add: ArcherTower_def SniperTower_def SplashTower_def FrozenTower_def
      Tower_init_def Let_def derived_stats_def fresh_stats_def equipped_force_def)

lemma created_fresh:
  "create_tower u ttype pos = Inr t \<Longrightarrow> derived_stats t = fresh_stats u t"
  unfolding create_tower_def using new_towers_fresh[of u pos]
  by (simp split: if_splits)

lemma run_item_op_slots:
  "item_slots (fst (run_item_op u (Equip item i) s)) =
     (if 0 \<le> i \<and> i < int (length (item_slots (fst s)))
      then (item_slots (fst s))[nat i := item] else item_slots (fst s))"
  "item_slots (fst (run_item_op u (Unequip i) s)) =
     (if 0 \<le> i \<and> i < int (length (item_slots (fst s))) \<and> truthy (item_slots (fst s) ! nat i)
      then (item_slots (fst s))[nat i := None] else item_slots (fst s))"
proof -
  obtain t rm where s: "s = (t, rm)" by (cases s)
  show "item_slots (fst (run_item_op u (Equip item i) s)) =
     (if 0 \<le> i \<and> i < int (length (item_slots (fst s)))
      then (item_slots (fst s))[nat i := item] else item_slots (fst s))"
    using effects_kept[of u "t\<lparr>item_slots := (item_slots t)[nat i := item]\<rparr>"]
    by (simp add: s add_item_def Let_def)
  show "item_slots (fst (run_item_op u (Unequip i) s)) =
     (if 0 \<le> i \<and> i < int (length (item_slots (fst s))) \<and> truthy (item_slots (fst s) ! nat i)
      then (item_slots (fst s))[nat i := None] else item_slots (fst s))"
    using effects_kept[of u "t\<lparr>item_slots := (item_slots t)[nat i := None]\<rparr>"]
    by (simp add: s remove_item_def Let_def)
qed

lemma splash0_fields:
  "item_slots splash0 = [None, None]
   \<and> base_values splash0 = (''Splash'', 20, 8 / 10, 200, 200, 50, 50, 0, 0)"
  by (simp add: splash0_def SplashTower_def Tower_init_def Let_def base_values_def ext0_def
      tower_config_of_def TOWER_TYPES_def config_get_def)

lemma ops0_slots:
  "item_slots (fst (run_item_ops ext0 ops0 (splash0, None))) = [Some ''Unstoppable Force'', None]"
  by (simp add: run_item_ops_def ops0_def run_item_op_slots splash0_fields truthy_def
      del: run_item_op.simps)

text \<open>
  C4. For every tower whose derived stats are those computed from its base values and its
  equipped modifiers (as they are for every tower that the factory makes), and every sequence
  of equip and unequip operations on its slots: afterwards the derived stats (damage, attack
  speed, range, area radius, slow magnitude and duration, splash side effect) are again
  those computed afresh from the base values, with the effect of each currently equipped
  modifier applied once; the base values are unchanged.
\<close>

theorem item_ops_never_compound:
  "derived_stats t = fresh_stats u t \<Longrightarrow>
   derived_stats (fst (run_item_ops u ops (t, rm)))
     = fresh_stats u (fst (run_item_ops u ops (t, rm)))
   \<and> base_values (fst (run_item_ops u ops (t, rm))) = base_values t"
proof (induction ops arbitrary: t rm)
  case Nil
  then show ?case by (simp add: run_item_ops_def)
next
  case (Cons op ops)
  obtain t1 rm1 where s: "run_item_op u op (t, rm) = (t1, rm1)" by (cases "run_item_op u op (t, rm)")
  have i: "derived_stats t1 = fresh_stats u t1 \<and> base_values t1 = base_values t"
    using run_item_op_invariant[OF Cons.prems, of op rm] s by simp
  have "run_item_ops u (op # ops) (t, rm) = run_item_ops u ops (t1, rm1)"
    by (simp add: run_item_ops_def s)
  then show ?case using Cons.IH[of t1 rm1] i by simp
qed


theorem item_ops_never_compound_witness:
  "derived_stats splash0 = fresh_stats ext0 splash0
   \<and> derived_stats (fst (run_item_ops ext0 ops0 (splash0, None)))
       = (20, 8 / 10, 200, Some 65, None, False, 0)"
proof -
  have f: "derived_stats splash0 = fresh_stats ext0 splash0"
    unfolding splash0_def by (rule new_towers_fresh)
  let ?t = "fst (run_item_ops ext0 ops0 (splash0, None))"
  have b: "base_values ?t = (''Splash'', 20, 8 / 10, 200, 200, 50, 50, 0, 0)"
    using item_ops_never_compound[OF f, of ops0 None] splash0_fields by simp
  have "fresh_stats ext0 ?t = (20, 8 / 10, 200, Some 65, None, False, 0)"
    using b ops0_slots by (simp add: fresh_stats_def base_values_def equipped_force_def ext0_def)
  then show ?thesis using f item_ops_never_compound[OF f, of ops0 None] by simp
qed

subsection \<open>Splash damage of the single-target towers\<close>

lemma splash_loop_store:
  "distinct rs \<Longrightarrow>
   fst (splash_loop u t target rs (ms, acc)) x =
     (if x \<in> set rs \<and> splashed u t target ms x
      then snd (take_damage (ms x) (damage t * (5 / 10))) else ms x)"
proof (induction rs arbitrary: ms acc)
  case Nil
  then show ?case by simp
next
  case (Cons r rs)
  let ?hit = "snd (take_damage (ms r) (damage t * (5 / 10)))"
  let ?ms' = "if splashed u t target ms r then ms(r := ?hit) else ms"
  define acc' where "acc' =
    (if splashed u t target ms r \<and> \<not> fst (take_damage (ms r) (damage t * (5 / 10)))
     then acc @ [r] else acc)"
  have step: "splash_loop u t target (r # rs) (ms, acc)
      = splash_loop u t target rs (?ms', acc')"
    by (simp add: splashed_def Let_def acc'_def)
  have d: "distinct rs" and nr: "r \<notin> set rs" using Cons.prems by simp_all
  have tgt: "?ms' target = ms target" by (simp add: splashed_def)
  have same: "y \<noteq> r \<Longrightarrow> ?ms' y = ms y" for y by simp
  have sp: "y \<in> set rs \<Longrightarrow> splashed u t target ?ms' y = splashed u t target ms y" for y
    using nr tgt same[of y] unfolding splashed_def by (cases "y = r") auto
  show ?case
  proof (cases "x = r")
    case True
    then have "x \<notin> set rs" using nr by simp
    then have "fst (splash_loop u t target rs (?ms', acc')) x = ?ms' x"
      using Cons.IH[OF d, of ?ms' acc'] by simp
    then show ?thesis using True step by simp
  next
    case False
    have "fst (splash_loop u t target rs (?ms', acc')) x =
      (if x \<in> set rs \<and> splashed u t target ?ms' x
       then snd (take_damage (?ms' x) (damage t * (5 / 10))) else ?ms' x)"
      using Cons.IH[OF d, of ?ms' acc'] by simp
    then show ?thesis using False step sp[of x] same[of x] by auto
  qed
qed

lemma handle_monster_death_health:
  "monster.health (monsters (handle_monster_death dl r g) x) = monster.health (monsters g x)"
  by (simp add: handle_monster_death_def Let_def split: option.splits)

lemma fold_handle_health:
  "monster.health (monsters (fold (\<lambda>r. handle_monster_death dl (Some r)) rs g) x)
     = monster.health (monsters g x)"
  by (induction rs arbitrary: g) (simp_all add: handle_monster_death_health)

lemma take_damage_snd:
  "snd (take_damage m x) = m\<lparr>monster.health := max 0 (monster.health m - x)\<rparr>"
  by (simp add: take_damage_def Let_def)

lemma resolve_attack_health:
  assumes "distinct (targets t)" and "\<not> is_dead (monsters g target)"
    and "splash_damage_enabled t" and "0 < splash_damage_radius t" and "x \<noteq> target"
  shows "monster.health (monsters (resolve_attack u dl gig t target g) x) =
     (if x \<in> set (targets t) \<and> \<not> is_dead (monsters g x)
         \<and> distance u (monster.position (monsters g x)) (monster.position (monsters g target))
               \<le> splash_damage_radius t
      then max 0 (monster.health (monsters g x) - damage t * (1 / 2))
      else monster.health (monsters g x))"
proof -
  let ?ms1 = "(monsters g)(target := snd (take_damage (monsters g target) (damage t)))"
  let ?sp = "splash_loop u t target (targets t) (?ms1, [])"
  have sp: "splashed u t target ?ms1 x =
      (\<not> is_dead (monsters g x)
       \<and> distance u (monster.position (monsters g x)) (monster.position (monsters g target))
             \<le> splash_damage_radius t)"
    using assms(5) by (simp add: splashed_def take_damage_snd)
  have st: "fst ?sp x =
     (if x \<in> set (targets t) \<and> splashed u t target ?ms1 x
      then snd (take_damage (?ms1 x) (damage t * (5 / 10))) else ?ms1 x)"
    by (rule splash_loop_store[OF assms(1)])
  have h: "monster.health (fst ?sp x) =
     (if x \<in> set (targets t) \<and> \<not> is_dead (monsters g x)
         \<and> distance u (monster.position (monsters g x)) (monster.position (monsters g target))
               \<le> splash_damage_radius t
      then max 0 (monster.health (monsters g x) - damage t * (1 / 2))
      else monster.health (monsters g x))"
    unfolding st sp using assms(5) by (simp add: take_damage_snd)
  have "monster.health (monsters (resolve_attack u dl gig t target g) x)
          = monster.health (fst ?sp x)"
    using assms(2,3,4) by (simp add: resolve_attack_def Let_def fold_handle_health)
  then show ?thesis using h by simp
qed

lemma find_targets_fields:
  "damage (find_targets u ms l t) = damage t
   \<and> splash_damage_enabled (find_targets u ms l t) = splash_damage_enabled t
   \<and> splash_damage_radius (find_targets u ms l t) = splash_damage_radius t"
  by (simp add: find_targets_def Let_def)

lemma find_targets_set:
  "x \<in> set (targets (find_targets u ms l t)) \<Longrightarrow> x \<in> set l \<and> \<not> is_dead (ms x)"
  by (simp add: find_targets_def Let_def)

lemma find_targets_distinct:
  "distinct l \<Longrightarrow> distinct (targets (find_targets u ms l t))"
  by (simp add: find_targets_def Let_def)

lemma Tower_attack_fields:
  "targets (Tower_attack t) = targets t \<and> damage (Tower_attack t) = damage t
   \<and> splash_damage_enabled (Tower_attack t) = splash_damage_enabled t
   \<and> splash_damage_radius (Tower_attack t) = splash_damage_radius t"
  by (simp add: Tower_attack_def)

lemma max_health_target_in: "max_health_target ms best rs \<in> insert best (set rs)"
proof (induction rs arbitrary: best)
  case Nil
  show ?case by simp
next
  case (Cons a rs)
  let ?b = "if monster.health (ms a) > monster.health (ms best) then a else best"
  have "max_health_target ms best (a # rs) = max_health_target ms ?b rs" by simp
  moreover have "max_health_target ms ?b rs \<in> insert ?b (set rs)" by (rule Cons.IH)
  moreover have "insert ?b (set rs) \<subseteq> insert best (set (a # rs))" by auto
  ultimately show ?case by (metis subsetD)
qed



lemma distance_ext0: "distance ext0 (x, y) (x, y') = \<bar>y - y'\<bar>"
  by (simp add: ext0_def)

lemma archer0_fields:
  "tower.tower_type archer0 = ''Archer'' \<and> item_slots archer0 = [None, None]
   \<and> tower.position archer0 = (0, 0) \<and> base_damage archer0 = 10 \<and> base_range archer0 = 150"
  by (simp add: archer0_def ArcherTower_def Tower_init_def Let_def tower_config_of_def
      TOWER_TYPES_def config_get_def ext0_def)

lemma force_archer_eq:
  "force_archer =
     (reset_stats (archer0\<lparr>item_slots := [Some ''Unstoppable Force'', None]\<rparr>))
       \<lparr>has_item_effects := True, splash_damage_enabled := True, splash_damage_radius := 30\<rparr>"
proof -
  let ?t = "archer0\<lparr>item_slots := [Some ''Unstoppable Force'', None]\<rparr>"
  let ?r = "(reset_stats ?t)\<lparr>has_item_effects := True\<rparr>"
  have a: "force_archer = apply_item_effects ext0 ?t"
    using archer0_fields by (simp add: force_archer_def add_item_def Let_def)
  have ty: "tower.tower_type ?r = ''Archer'' \<or> tower.tower_type ?r = ''Sniper''"
    using reset_stats_fields[of ?t] archer0_fields by simp
  have k: "force_count [Some ''Unstoppable Force'', None] = 1" by (simp add: force_count_def)
  have "apply_item_effects ext0 ?t = fold (apply_item ext0) [Some ''Unstoppable Force'', None] ?r"
    by (simp add: apply_item_effects_alt truthy_def)
  also have "\<dots> = ?r\<lparr>splash_damage_enabled := True, splash_damage_radius := scale_value ext0 30\<rparr>"
    unfolding fold_single[OF ty] k by simp
  finally show ?thesis using a by (simp add: ext0_def)
qed

lemma force_archer_fields:
  "damage force_archer = 10 \<and> range' force_archer = 150
   \<and> tower.position force_archer = (0, 0) \<and> tower.tower_type force_archer = ''Archer''
   \<and> splash_damage_enabled force_archer \<and> splash_damage_radius force_archer = 30"
  using archer0_fields by (simp add: force_archer_eq reset_stats_def Let_def)

lemma three_monsters_fields:
  "monster.position (three_monsters r) = (0, if r = 2 then 50 else if r = 3 then 70 else 100)
   \<and> monster.health (three_monsters r) = 50 \<and> \<not> is_dead (three_monsters r)
   \<and> \<not> flying (three_monsters r)"
  by (simp add: three_monsters_def grunt_def)

lemma splash_game_targets:
  "targets (find_targets ext0 (monsters splash_game) [2, 3, 4] force_archer) = [2, 3, 4]"
  by (simp add: find_targets_def Let_def splash_game_def force_archer_fields three_monsters_fields
      distance_ext0)


text \<open>
  C8. An Archer or Sniper tower with the splash side effect enabled attacks its primary
  target (the closest target, or for the Sniper the target of greatest health) among the
  live monsters in its range. Of two other targets in range, the one within the splash
  radius of the primary target loses exactly half of the tower's damage value (its health
  stopping at 0), and the one outside the radius keeps its health.
\<close>

theorem splash_hits_only_within_radius:
  assumes "distinct monster_list"
    and "ta = find_targets u (monsters g) monster_list t"
    and "splash_damage_enabled t" and "0 < splash_damage_radius t"
    and "(primary = hd (targets ta) \<and> g' = snd (ArcherTower_attack u dl gig ta g))
         \<or> (primary = max_health_target (monsters g) (hd (targets ta)) (tl (targets ta))
            \<and> g' = snd (SniperTower_attack u dl gig ta g))"
    and "a \<in> set (targets ta)" and "b \<in> set (targets ta)"
    and "a \<noteq> primary" and "b \<noteq> primary"
    and "distance u (monster.position (monsters g a)) (monster.position (monsters g primary))
           \<le> splash_damage_radius t"
    and "\<not> distance u (monster.position (monsters g b)) (monster.position (monsters g primary))
           \<le> splash_damage_radius t"
  shows "monster.health (monsters g' a) = max 0 (monster.health (monsters g a) - damage t * (1 / 2))
     \<and> monster.health (monsters g' b) = monster.health (monsters g b)"
proof -
  let ?t2 = "Tower_attack ta"
  have ne: "targets ta \<noteq> []" using assms(6) by auto
  then have hd_tl: "targets ta = hd (targets ta) # tl (targets ta)" by simp
  have "primary \<in> set (targets ta)"
  proof -
    have "max_health_target (monsters g) (hd (targets ta)) (tl (targets ta))
            \<in> insert (hd (targets ta)) (set (tl (targets ta)))"
      by (rule max_health_target_in)
    also have "insert (hd (targets ta)) (set (tl (targets ta))) = set (targets ta)"
      using hd_tl by (metis list.simps(15))
    finally show ?thesis using assms(5) ne by auto
  qed
  then have alive: "\<not> is_dead (monsters g primary)"
    using find_targets_set[of primary u "monsters g" monster_list t] assms(2) by simp
  have alive_a: "\<not> is_dead (monsters g a)"
    using find_targets_set[of a u "monsters g" monster_list t] assms(2,6) by simp
  have d: "distinct (targets ?t2)"
    using find_targets_distinct[OF assms(1), of u "monsters g" t] assms(2)
    by (simp add: Tower_attack_fields)
  have f: "damage ?t2 = damage t \<and> splash_damage_enabled ?t2 \<and> 0 < splash_damage_radius ?t2
           \<and> splash_damage_radius ?t2 = splash_damage_radius t \<and> targets ?t2 = targets ta"
    using assms(2,3,4) find_targets_fields[of u "monsters g" monster_list t]
    by (simp add: Tower_attack_fields)
  have g': "g' = resolve_attack u dl gig ?t2 primary g"
    using assms(5) ne by (auto simp: ArcherTower_attack_def SniperTower_attack_def Let_def
        Tower_attack_fields)
  have ra: "monster.health (monsters g' x) =
     (if x \<in> set (targets ta) \<and> \<not> is_dead (monsters g x)
         \<and> distance u (monster.position (monsters g x)) (monster.position (monsters g primary))
               \<le> splash_damage_radius t
      then max 0 (monster.health (monsters g x) - damage t * (1 / 2))
      else monster.health (monsters g x))" if "x \<noteq> primary" for x
    unfolding g' using resolve_attack_health[OF d alive _ _ that, of u dl gig] f by simp
  show ?thesis
    using ra[OF assms(8)] ra[OF assms(9)] assms(6,7,10,11) alive_a by simp
qed

theorem splash_hits_only_within_radius_witness:
  "targets (find_targets ext0 (monsters splash_game) [2, 3, 4] force_archer) = [2, 3, 4]
   \<and> splash_damage_enabled force_archer \<and> splash_damage_radius force_archer = 30
   \<and> damage force_archer = 10
   \<and> distance ext0 (monster.position (monsters splash_game 3))
         (monster.position (monsters splash_game 2)) = 20
   \<and> distance ext0 (monster.position (monsters splash_game 4))
         (monster.position (monsters splash_game 2)) = 50
   \<and> monster.health (monsters splash_game 3) = 50
   \<and> monster.health (monsters splash_game 4) = 50
   \<and> monster.health (monsters (snd (ArcherTower_attack ext0 (\<lambda>_. []) False
         (find_targets ext0 (monsters splash_game) [2, 3, 4] force_archer) splash_game)) 3) = 45
   \<and> monster.health (monsters (snd (ArcherTower_attack ext0 (\<lambda>_. []) False
         (find_targets ext0 (monsters splash_game) [2, 3, 4] force_archer) splash_game)) 4) = 50"
proof -
  let ?t1 = "find_targets ext0 (monsters splash_game) [2, 3, 4] force_archer"
  let ?g' = "snd (ArcherTower_attack ext0 (\<lambda>_. []) False ?t1 splash_game)"
  have m: "monsters splash_game = three_monsters" by (simp add: splash_game_def)
  have d1: "distance ext0 (monster.position (monsters splash_game 3))
         (monster.position (monsters splash_game 2)) = 20"
    by (simp add: m three_monsters_fields distance_ext0)
  have d2: "distance ext0 (monster.position (monsters splash_game 4))
         (monster.position (monsters splash_game 2)) = 50"
    by (simp add: m three_monsters_fields distance_ext0)
  have h: "monster.health (monsters splash_game 3) = 50
           \<and> monster.health (monsters splash_game 4) = 50"
    by (simp add: m three_monsters_fields)
  have r: "monster.health (monsters ?g' 3)
              = max 0 (monster.health (monsters splash_game 3) - damage force_archer * (1 / 2))
           \<and> monster.health (monsters ?g' 4) = monster.health (monsters splash_game 4)"
    by (rule splash_hits_only_within_radius[where monster_list = "[2, 3, 4]" and ta = ?t1
          and primary = 2 and u = ext0 and dl = "\<lambda>_. []" and gig = False])
       (simp_all add: splash_game_targets force_archer_fields d1 d2)
  show ?thesis
    using r h d1 d2 force_archer_fields splash_game_targets by simp
qed

subsection \<open>Placing a tower\<close>

lemma spend_for_tower_ledger:
  "has_resources_for_tower rm cost mc \<Longrightarrow>
   spend_resources_for_tower rm cost mc = (True, deduct (''Monster Coins'', mc) (fold deduct cost rm))"
  "\<not> has_resources_for_tower rm cost mc \<Longrightarrow> spend_resources_for_tower rm cost mc = (False, rm)"
  by (simp_all add: spend_resources_for_tower_def)

lemma deduct_total:
  "get_resource (deduct (''Monster Coins'', mc) (fold deduct cost rm)) kind =
     get_resource rm kind - cost_total cost kind - (if kind = ''Monster Coins'' then mc else 0)"
  by (simp add: get_resource_def deduct_def fold_deduct)

lemma unknown_type_free:
  assumes "create_tower u ty pos = Inl e"
  shows "config_cost (tower_config_of ty) [] = [] \<and> monster_coin_cost_of ty 0 = 0"
proof -
  have n: "ty \<noteq> ''Archer''" "ty \<noteq> ''Sniper''" "ty \<noteq> ''Splash''" "ty \<noteq> ''Frozen''"
    using assms by (auto simp: create_tower_def split: if_splits)
  then show ?thesis
    by (simp add: config_cost_def tower_config_of_def TOWER_TYPES_def monster_coin_cost_of_def
        TOWER_MONSTER_COIN_COSTS_def)
qed

lemma spend_nothing: "spend_resources_for_tower rm [] 0 = (True, rm) \<or> spend_resources_for_tower rm [] 0 = (False, rm)"
  by (simp add: spend_resources_for_tower_def deduct_def)


lemma place_tower_result:
  assumes "ttype = tower_placement_state.tower_type (tower_placement g)"
    and "tower_cost = config_cost (tower_config_of (the ttype)) []"
    and "mc = monster_coin_cost_of (the ttype) 0"
  shows "place_tower u pos g =
     (if truthy ttype \<and> is_valid_tower_position u g pos
         \<and> has_resources_for_tower (resource_manager g) tower_cost mc
      then (case create_tower u (the ttype) pos of
              Inl e \<Rightarrow> (Inl e, g)
            | Inr tower \<Rightarrow>
                (Inr True,
                 g\<lparr>resource_manager :=
                     deduct (''Monster Coins'', mc) (fold deduct tower_cost (resource_manager g)),
                   towers := towers g @ [tower]\<rparr>))
      else (Inr False, g))"
proof (cases "truthy ttype \<and> is_valid_tower_position u g pos")
  case False
  then show ?thesis using assms(1) by (auto simp: place_tower_def Let_def)
next
  case tv: True
  show ?thesis
  proof (cases "has_resources_for_tower (resource_manager g) tower_cost mc")
    case False
    then show ?thesis
      using tv assms by (simp add: place_tower_def Let_def spend_for_tower_ledger(2))
  next
    case True
    note sp = spend_for_tower_ledger(1)[OF True]
    show ?thesis
    proof (cases "create_tower u (the ttype) pos")
      case (Inl e)
      from unknown_type_free[OF Inl] have z: "tower_cost = []" "mc = 0" using assms by simp_all
      have "deduct (''Monster Coins'', 0) (resource_manager g) = resource_manager g"
        by (simp add: deduct_def)
      then show ?thesis
        using tv True Inl assms z sp by (simp add: place_tower_def Let_def)
    next
      case (Inr tower)
      then show ?thesis
        using tv True assms sp by (simp add: place_tower_def Let_def)
    qed
  qed
qed

lemma cancel_placement:
  assumes "e = RightClick \<or> e = KeyEscape"
  shows "resource_manager (snd (TowerPlacementState_handle_events u mouse_pos [e]
            (enter_tower_placement_mode u ty g))) = resource_manager g
     \<and> towers (snd (TowerPlacementState_handle_events u mouse_pos [e]
            (enter_tower_placement_mode u ty g))) = towers g
     \<and> current_state (snd (TowerPlacementState_handle_events u mouse_pos [e]
            (enter_tower_placement_mode u ty g))) = PlayingState
     \<and> tower_placement (snd (TowerPlacementState_handle_events u mouse_pos [e]
            (enter_tower_placement_mode u ty g)))
         = (tower_placement g)\<lparr>tower_placement_state.tower_type := None, tower_preview := None\<rparr>"
proof -
  have cs: "resource_manager (change_state s h) = resource_manager h
            \<and> towers (change_state s h) = towers h" for s h
    by (simp add: change_state_def state_enter_def state_exit_def GameOverState_enter_def
        TowerPlacementState_enter_def TowerPlacementState_exit_def Let_def)
  have st: "resource_manager (set_tower_type u x h) = resource_manager h
            \<and> towers (set_tower_type u x h) = towers h
            \<and> current_state (set_tower_type u x h) = current_state h" for x h
    by (simp add: set_tower_type_def Let_def split: sum.splits)
  have mp: "resource_manager (move_preview mouse_pos h) = resource_manager h
            \<and> towers (move_preview mouse_pos h) = towers h
            \<and> current_state (move_preview mouse_pos h) = current_state h" for h
    by (simp add: move_preview_def split: option.splits)
  let ?gp = "move_preview mouse_pos (enter_tower_placement_mode u ty g)"
  have cur: "current_state ?gp = TowerPlacementState"
    using mp[of "enter_tower_placement_mode u ty g"]
      st[of "Some ty" "change_state TowerPlacementState g"]
    by (simp add: enter_tower_placement_mode_def change_state_def)
  have ev: "snd (TowerPlacementState_handle_events u mouse_pos [e]
            (enter_tower_placement_mode u ty g)) = change_state PlayingState ?gp"
    using assms by (auto simp: TowerPlacementState_handle_events_def)
  have keep: "resource_manager ?gp = resource_manager g \<and> towers ?gp = towers g"
    using mp[of "enter_tower_placement_mode u ty g"]
      st[of "Some ty" "change_state TowerPlacementState g"] cs[of TowerPlacementState g]
    by (simp add: enter_tower_placement_mode_def)
  have tp: "tower_placement (change_state PlayingState ?gp)
         = (tower_placement ?gp)\<lparr>tower_placement_state.tower_type := None, tower_preview := None\<rparr>"
    using cur by (simp add: change_state_def state_exit_def state_enter_def
        TowerPlacementState_exit_def)
  have tp2: "(tower_placement ?gp)\<lparr>tower_placement_state.tower_type := None, tower_preview := None\<rparr>
         = (tower_placement g)\<lparr>tower_placement_state.tower_type := None, tower_preview := None\<rparr>"
    by (simp add: move_preview_def enter_tower_placement_mode_def set_tower_type_def Let_def
        change_state_def state_enter_def state_exit_def TowerPlacementState_enter_def
        TowerPlacementState_exit_def GameOverState_enter_def
        split: option.splits sum.splits)
  show ?thesis
    unfolding ev using cs[of PlayingState ?gp] keep tp tp2
    by (simp add: change_state_def)
qed

lemma placing_game_fields:
  "tower_placement_state.tower_type (tower_placement (placing_game rm)) = Some ''Archer''
   \<and> resource_manager (placing_game rm) = rm \<and> towers (placing_game rm) = []
   \<and> buildings (placing_game rm) = []"
  by (simp add: placing_game_def enter_tower_placement_mode_def set_tower_type_def Let_def
      change_state_def state_enter_def state_exit_def TowerPlacementState_enter_def
      create_tower_def truthy_def game0_def)

lemma archer_cost:
  "config_cost (tower_config_of ''Archer'') [] = [(''Stone'', 20)]
   \<and> monster_coin_cost_of ''Archer'' 0 = 15"
  by (simp add: config_cost_def tower_config_of_def TOWER_TYPES_def monster_coin_cost_of_def
      TOWER_MONSTER_COIN_COSTS_def)

lemma placing_valid: "is_valid_tower_position ext0 (placing_game rm) (100, 100)"
  by (simp add: is_valid_tower_position_def Let_def placing_game_fields ext0_def)

lemma ledgers:
  "has_resources_for_tower rich [(''Stone'', 20)] 15
   \<and> \<not> has_resources_for_tower poor [(''Stone'', 20)] 15
   \<and> get_resource rich ''Stone'' = 100 \<and> get_resource rich ''Monster Coins'' = 50
   \<and> cost_total [(''Stone'', 20)] ''Stone'' = 20
   \<and> cost_total [(''Stone'', 20)] ''Monster Coins'' = 0"
  by (simp add: has_resources_for_tower_def has_resources_def get_resource_def rich_def poor_def
      cost_total_def)

text \<open>
  C9. \<open>place_tower\<close> returns True exactly when a tower type is pending, the position passes
  the castle-boundary and collision checks, the ledger affords the full cost of the variant
  (in-kind resources and Monster Coins) and the factory knows the type; then the ledger has
  lost exactly that cost and the new tower is the last of the game's towers. In every other
  case the game is left as it was: nothing is spent and no tower is created. Entering the
  placement state and cancelling (right click or Escape) leaves the ledger and the towers
  as they were and returns to the playing state.
\<close>

theorem placement_all_or_nothing:
  assumes "ttype = tower_placement_state.tower_type (tower_placement g)"
    and "tower_cost = config_cost (tower_config_of (the ttype)) []"
    and "mc = monster_coin_cost_of (the ttype) 0"
    and "place_tower u pos g = (res, g')"
    and "e = RightClick \<or> e = KeyEscape"
    and "gc = snd (TowerPlacementState_handle_events u mouse_pos [e]
                     (enter_tower_placement_mode u ty g))"
  shows "(res = Inr True \<longrightarrow>
            truthy ttype \<and> is_valid_tower_position u g pos
            \<and> has_resources_for_tower (resource_manager g) tower_cost mc
            \<and> (\<exists>tower. create_tower u (the ttype) pos = Inr tower
                  \<and> towers g' = towers g @ [tower])
            \<and> (\<forall>kind. get_resource (resource_manager g') kind =
                  get_resource (resource_manager g) kind - cost_total tower_cost kind
                    - (if kind = ''Monster Coins'' then mc else 0)))
     \<and> (res \<noteq> Inr True \<longrightarrow> g' = g)
     \<and> (truthy ttype \<and> is_valid_tower_position u g pos
          \<and> has_resources_for_tower (resource_manager g) tower_cost mc
          \<and> (\<exists>tower. create_tower u (the ttype) pos = Inr tower) \<longrightarrow> res = Inr True)
     \<and> resource_manager gc = resource_manager g \<and> towers gc = towers g
     \<and> current_state gc = PlayingState"
proof -
  note r = place_tower_result[OF assms(1,2,3), of u pos]
  have c: "resource_manager gc = resource_manager g \<and> towers gc = towers g
     \<and> current_state gc = PlayingState"
    using cancel_placement[OF assms(5), of u mouse_pos ty g] assms(6) by simp
  show ?thesis
  proof (cases "truthy ttype \<and> is_valid_tower_position u g pos
         \<and> has_resources_for_tower (resource_manager g) tower_cost mc")
    case False
    then have "res = Inr False \<and> g' = g" using r assms(4) by auto
    then show ?thesis using c False by auto
  next
    case True
    show ?thesis
    proof (cases "create_tower u (the ttype) pos")
      case (Inl err)
      then have "res = Inl err \<and> g' = g" using r True assms(4) by simp
      then show ?thesis using c Inl by simp
    next
      case (Inr tower)
      then have "res = Inr True
          \<and> g' = g\<lparr>resource_manager :=
                     deduct (''Monster Coins'', mc) (fold deduct tower_cost (resource_manager g)),
                   towers := towers g @ [tower]\<rparr>"
        using r True assms(4) by simp
      then show ?thesis using c Inr True by (simp add: deduct_total)
    qed
  qed
qed


theorem placement_all_or_nothing_witness:
  "fst (place_tower ext0 (100, 100) (placing_game rich)) = Inr True
   \<and> towers (snd (place_tower ext0 (100, 100) (placing_game rich)))
       = [ArcherTower ext0 (100, 100)]
   \<and> get_resource (resource_manager (snd (place_tower ext0 (100, 100) (placing_game rich))))
        ''Stone'' = 80
   \<and> get_resource (resource_manager (snd (place_tower ext0 (100, 100) (placing_game rich))))
        ''Monster Coins'' = 35
   \<and> fst (place_tower ext0 (100, 100) (placing_game poor)) \<noteq> Inr True
   \<and> snd (place_tower ext0 (100, 100) (placing_game poor)) = placing_game poor
   \<and> resource_manager (snd (TowerPlacementState_handle_events ext0 (100, 100) [RightClick]
        (enter_tower_placement_mode ext0 ''Archer'' (placing_game rich)))) = rich
   \<and> towers (snd (TowerPlacementState_handle_events ext0 (100, 100) [RightClick]
        (enter_tower_placement_mode ext0 ''Archer'' (placing_game rich)))) = []"
proof -
  have ct: "create_tower ext0 ''Archer'' (100, 100) = Inr (ArcherTower ext0 (100, 100))"
    by (simp add: create_tower_def)
  note t1 = placement_all_or_nothing[where g = "placing_game rich" and u = ext0
      and pos = "(100, 100)" and mouse_pos = "(100, 100)" and ty = "''Archer''"
      and e = RightClick, OF refl refl refl prod.collapse[symmetric] disjI1[OF refl] refl]
  note t2 = placement_all_or_nothing[where g = "placing_game poor" and u = ext0
      and pos = "(100, 100)" and mouse_pos = "(100, 100)" and ty = "''Archer''"
      and e = RightClick, OF refl refl refl prod.collapse[symmetric] disjI1[OF refl] refl]
  have ok: "fst (place_tower ext0 (100, 100) (placing_game rich)) = Inr True"
    using t1 placing_valid[of rich] ledgers ct
    by (simp add: placing_game_fields archer_cost truthy_def)
  have bad: "fst (place_tower ext0 (100, 100) (placing_game poor)) \<noteq> Inr True"
    using t2 ledgers by (auto simp: placing_game_fields archer_cost)
  show ?thesis
    using t1 t2 ok bad ledgers ct
    by (simp add: placing_game_fields archer_cost)
qed

end
